theory Spec2Isabelle
  imports Main "HOL-Library.Char_ord" "HOL-Library.List_Lexorder" "HOL-Library.AList"
begin

section \<open>Strings of the Go standard library\<close>

text \<open>
  Go strings are byte sequences; \<^typ>\<open>string\<close> is a list of 8-bit characters.
  Go compares strings byte by byte, a proper prefix being smaller: this is the
  lexicographic order on \<^typ>\<open>char list\<close> over the byte order of \<^typ>\<open>char\<close>.
\<close>

text \<open>\<^verbatim>\<open>strings.Join(elems, sep)\<close>.\<close>

fun strings_Join :: "string list \<Rightarrow> string \<Rightarrow> string" where
  "strings_Join [] sep = []"
| "strings_Join [x] sep = x"
| "strings_Join (x # y # ys) sep = x @ sep @ strings_Join (y # ys) sep"

text \<open>
  \<^verbatim>\<open>strings.Split(s, sep)\<close> for a separator of one byte: a string with \<open>n\<close>
  separators gives \<open>n + 1\<close> pieces, and the empty string gives one empty piece.
\<close>

fun split_byte :: "char \<Rightarrow> string \<Rightarrow> string list" where
  "split_byte sep [] = [[]]"
| "split_byte sep (c # cs) =
     (if c = sep then [] # split_byte sep cs
      else (case split_byte sep cs of
              [] \<Rightarrow> [[c]]
            | p # ps \<Rightarrow> (c # p) # ps))"

text \<open>\<^verbatim>\<open>strings.HasPrefix(s, prefix)\<close>.\<close>

definition strings_HasPrefix :: "string \<Rightarrow> string \<Rightarrow> bool" where
  "strings_HasPrefix s pre = (take (length pre) s = pre)"

text \<open>The decimal digits of a natural number, and \<^verbatim>\<open>strconv.Itoa\<close> (also \<^verbatim>\<open>%d\<close>).\<close>

definition digit_char :: "nat \<Rightarrow> char" where
  "digit_char d = char_of (48 + d)"

function show_nat :: "nat \<Rightarrow> string" where
  "show_nat n = (if n < 10 then [digit_char n] else show_nat (n div 10) @ [digit_char (n mod 10)])"
  by pat_completeness auto
termination
  by (relation "measure id") auto

declare show_nat.simps [simp del]

definition strconv_Itoa :: "int \<Rightarrow> string" where
  "strconv_Itoa i = (if i < 0 then CHR ''-'' # show_nat (nat (- i)) else show_nat (nat i))"

section \<open>Status summary of a stack\<close>

text \<open>
  \<^verbatim>\<open>combinedStatus\<close>: the first loop counts every status in the map \<^verbatim>\<open>nbByStatus\<close>
  and records each new status in \<^verbatim>\<open>keys\<close>; the keys are then sorted and rendered.
  Counts are Go \<^verbatim>\<open>int\<close>s; a slice is far shorter than \<open>2^63\<close>, so they are
  modelled as unbounded integers.
\<close>

definition count_status ::
  "(string \<rightharpoonup> int) \<times> string list \<Rightarrow> string \<Rightarrow> (string \<rightharpoonup> int) \<times> string list" where
  "count_status st status =
     (case st of (nbByStatus, keys) \<Rightarrow>
        (case nbByStatus status of
           None \<Rightarrow> (nbByStatus(status \<mapsto> 0 + 1), keys @ [status])
         | Some nb \<Rightarrow> (nbByStatus(status \<mapsto> nb + 1), keys)))"

text \<open>Reading a Go map of integers at a key: the zero value when the key is absent.\<close>

definition int_at :: "(string \<rightharpoonup> int) \<Rightarrow> string \<Rightarrow> int" where
  "int_at m k = (case m k of None \<Rightarrow> 0 | Some v \<Rightarrow> v)"

definition render_status :: "(string \<rightharpoonup> int) \<Rightarrow> string \<Rightarrow> string \<Rightarrow> string" where
  "render_status nbByStatus result status =
     (if result \<noteq> [] then result @ '', '' else result)
       @ status @ ''('' @ strconv_Itoa (int_at nbByStatus status) @ '')''"

definition combinedStatus :: "string list \<Rightarrow> string" where
  "combinedStatus statuses =
     (case foldl count_status (Map.empty, []) statuses of
        (nbByStatus, keys) \<Rightarrow> foldl (render_status nbByStatus) [] (sort keys))"

text \<open>
  The summary as the specification words it: the distinct states in alphabetical order,
  each followed by its number of occurrences in parentheses, joined by a comma and a space.
\<close>

definition status_summary :: "string list \<Rightarrow> string" where
  "status_summary statuses =
     strings_Join
       (map (\<lambda>s. s @ ''('' @ strconv_Itoa (int (count_list statuses s)) @ '')'')
            (sort (remdups statuses)))
       '', ''"

section \<open>Paths of the Go standard library\<close>

text \<open>
  The functions of \<^verbatim>\<open>path/filepath\<close> that the code calls, on a Unix system (separator
  \<open>/\<close>, no volume names), as the package documents them.
\<close>

definition filepath_IsAbs :: "string \<Rightarrow> bool" where
  "filepath_IsAbs path = strings_HasPrefix path ''/''"

text \<open>
  \<^verbatim>\<open>filepath.Base\<close>: the last element of the path, after trailing slashes are removed;
  \<open>.\<close> for the empty path and \<open>/\<close> for a path of slashes only.
\<close>

definition filepath_Base :: "string \<Rightarrow> string" where
  "filepath_Base path =
     (if path = [] then ''.''
      else
        (let stripped = rev (dropWhile (\<lambda>c. c = CHR ''/'') (rev path));
             element = rev (takeWhile (\<lambda>c. c \<noteq> CHR ''/'') (rev stripped))
         in if element = [] then ''/'' else element))"

text \<open>
  \<^verbatim>\<open>filepath.Clean\<close>, element by element: empty elements and \<open>.\<close> are dropped; \<open>..\<close>
  removes the element before it when there is one that is not itself \<open>..\<close>, is dropped at the
  root of a rooted path and is kept otherwise. The empty result is \<open>.\<close>.
\<close>

definition clean_step :: "bool \<Rightarrow> string list \<Rightarrow> string \<Rightarrow> string list" where
  "clean_step rooted out element =
     (if element = [] \<or> element = ''.'' then out
      else if element = ''..'' then
        (if out \<noteq> [] \<and> last out \<noteq> ''..'' then butlast out
         else if \<not> rooted then out @ [''..'']
         else out)
      else out @ [element])"

definition filepath_Clean :: "string \<Rightarrow> string" where
  "filepath_Clean path =
     (if path = [] then ''.''
      else
        (let rooted = strings_HasPrefix path ''/'';
             out = foldl (clean_step rooted) [] (split_byte CHR ''/'' path);
             cleaned = (if rooted then ''/'' else []) @ strings_Join out ''/''
         in if cleaned = [] then ''.'' else cleaned))"

text \<open>
  \<^verbatim>\<open>filepath.Join\<close> of two elements: leading empty elements are ignored, the rest is
  joined by the separator and cleaned; all elements empty gives the empty string.
\<close>

definition filepath_Join :: "string \<Rightarrow> string \<Rightarrow> string" where
  "filepath_Join a b =
     (if a \<noteq> [] then filepath_Clean (a @ ''/'' @ b)
      else if b \<noteq> [] then filepath_Clean b
      else [])"

section \<open>The project model and the engine's containers\<close>

text \<open>
  The types of \<^verbatim>\<open>compose-go\<close> and of the engine API, with the fields that the functions
  below read or write. A Go map is an association list read with \<^const>\<open>map_of\<close>; where the
  code ranges over a map, the order of the list is the order of that iteration, which Go
  leaves open. A pointer to a struct is an \<^typ>\<open>'a option\<close>, \<^const>\<open>None\<close> being \<^verbatim>\<open>nil\<close>.
\<close>

record ServiceVolumeConfig =
  sv_Type :: string
  sv_Source :: string
  sv_Target :: string
  sv_ReadOnly :: bool
  sv_Consistency :: string
  sv_Bind :: "string option"  \<comment> \<open>\<^verbatim>\<open>*ServiceVolumeBind\<close>: its \<^verbatim>\<open>Propagation\<close>\<close>
  sv_Volume :: "bool option"  \<comment> \<open>\<^verbatim>\<open>*ServiceVolumeVolume\<close>: its \<^verbatim>\<open>NoCopy\<close>\<close>
  sv_Tmpfs :: "int option"  \<comment> \<open>\<^verbatim>\<open>*ServiceVolumeTmpfs\<close>: its \<^verbatim>\<open>Size\<close>\<close>

record ServicePortConfig =
  pt_Target :: nat
  pt_Published :: nat
  pt_Protocol :: string

record ServiceConfig =
  s_Name :: string
  s_Image :: string
  s_Command :: "string list"
  s_Entrypoint :: "string list"
  s_Tty :: bool
  s_StdinOpen :: bool
  s_NetworkMode :: string
  s_Networks :: "(string \<times> string list option) list"
    \<comment> \<open>\<^verbatim>\<open>map[string]*ServiceNetworkConfig\<close>: the \<^verbatim>\<open>Aliases\<close> of each entry\<close>
  s_Ports :: "ServicePortConfig list"
  s_Volumes :: "ServiceVolumeConfig list"

text \<open>
  \<^verbatim>\<open>Labels\<close> is a Go map, a reference: a copy of a \<^verbatim>\<open>NetworkConfig\<close> or \<^verbatim>\<open>VolumeConfig\<close>
  struct shares the map with the original. The field holds the address of the map in a
  store of label maps, or \<^const>\<open>None\<close> for the \<^verbatim>\<open>nil\<close> map.
\<close>

type_synonym labels = "(string \<times> string) list"

record IPAMConfig =
  ipam_Driver :: string
  ipam_Config :: "string list"  \<comment> \<open>the \<^verbatim>\<open>Subnet\<close> of each \<^verbatim>\<open>IPAMPool\<close>\<close>

record NetworkConfig =
  n_Name :: string
  n_Driver :: string
  n_DriverOpts :: labels
  n_Ipam :: IPAMConfig
  n_External :: bool
  n_Internal :: bool
  n_Attachable :: bool
  n_Labels :: "nat option"

record VolumeConfig =
  v_Name :: string
  v_Driver :: string
  v_DriverOpts :: labels
  v_External :: bool
  v_Labels :: "nat option"

record Project =
  p_Name :: string
  p_WorkingDir :: string
  p_Services :: "ServiceConfig list"
  p_Networks :: "(string \<times> NetworkConfig) list"
  p_Volumes :: "(string \<times> VolumeConfig) list"
  p_ComposeFiles :: "string list"

text \<open>The engine's view of a container (\<^verbatim>\<open>moby.Container\<close>) and of its mounts.\<close>

record MountPoint =
  mp_Type :: string
  mp_Name :: string
  mp_Source :: string
  mp_Destination :: string
  mp_RW :: bool

record Container =
  c_ID :: string
  c_Names :: "string list"
  c_State :: string
  c_Labels :: labels
  c_Mounts :: "MountPoint list"

text \<open>\<^verbatim>\<open>mount.Mount\<close>, the mount of a container to be created.\<close>

record Mount =
  m_Type :: string
  m_Source :: string
  m_Target :: string
  m_ReadOnly :: bool
  m_Consistency :: string
  m_BindOptions :: "string option"  \<comment> \<open>\<^verbatim>\<open>*BindOptions\<close>: its \<^verbatim>\<open>Propagation\<close>\<close>
  m_VolumeOptions :: "bool option"  \<comment> \<open>\<^verbatim>\<open>*VolumeOptions\<close>: its \<^verbatim>\<open>NoCopy\<close>\<close>
  m_TmpfsOptions :: "int option"  \<comment> \<open>\<^verbatim>\<open>*TmpfsOptions\<close>: its \<^verbatim>\<open>SizeBytes\<close>\<close>

text \<open>Reading a Go map of strings at a key: the empty string when the key is absent.\<close>

definition label_at :: "labels \<Rightarrow> string \<Rightarrow> string" where
  "label_at m k = (case map_of m k of None \<Rightarrow> [] | Some v \<Rightarrow> v)"

section \<open>Mounts of a container to be created\<close>

text \<open>
  Modelled from the spec: the helper \<^verbatim>\<open>contains\<close> is declared outside the source files at
  hand. A mount that the prior container held and the new definition declares at the same
  target is inherited, so \<^verbatim>\<open>contains(inherited, v.Target)\<close> is membership of the target in
  the slice of inherited targets.
\<close>

definition contains :: "string list \<Rightarrow> string \<Rightarrow> bool" where
  "contains slice item = (item \<in> set slice)"

definition buildBindOption :: "string option \<Rightarrow> string option" where
  "buildBindOption bind = (case bind of None \<Rightarrow> None | Some propagation \<Rightarrow> Some propagation)"

definition buildVolumeOptions :: "bool option \<Rightarrow> bool option" where
  "buildVolumeOptions vol = (case vol of None \<Rightarrow> None | Some nocopy \<Rightarrow> Some nocopy)"

definition buildTmpfsOptions :: "int option \<Rightarrow> int option" where
  "buildTmpfsOptions tmpfs = (case tmpfs of None \<Rightarrow> None | Some bytes \<Rightarrow> Some bytes)"

text \<open>The mount built in the first loop of \<^verbatim>\<open>buildContainerMountOptions\<close> from a mount of
  the prior container: a volume is referred to by its name, any other mount by its source.\<close>

definition inherited_mount :: "MountPoint \<Rightarrow> Mount" where
  "inherited_mount m =
     (let src = (if mp_Type m = ''volume'' then mp_Name m else mp_Source m)
      in \<lparr>m_Type = mp_Type m, m_Source = src, m_Target = mp_Destination m,
          m_ReadOnly = (\<not> mp_RW m), m_Consistency = [],
          m_BindOptions = None, m_VolumeOptions = None, m_TmpfsOptions = None\<rparr>)"

text \<open>The mount built in the second loop from a volume of the service definition.\<close>

definition declared_mount :: "Project \<Rightarrow> ServiceVolumeConfig \<Rightarrow> Mount" where
  "declared_mount p v =
     (let source =
            (if sv_Type v = ''bind'' \<and> \<not> filepath_IsAbs (sv_Source v)
             then filepath_Join (p_WorkingDir p) (sv_Source v)
             else sv_Source v)
      in \<lparr>m_Type = sv_Type v, m_Source = source, m_Target = sv_Target v,
          m_ReadOnly = sv_ReadOnly v, m_Consistency = sv_Consistency v,
          m_BindOptions = buildBindOption (sv_Bind v),
          m_VolumeOptions = buildVolumeOptions (sv_Volume v),
          m_TmpfsOptions = buildTmpfsOptions (sv_Tmpfs v)\<rparr>)"

text \<open>One round of the first loop: the state is the pair of \<^verbatim>\<open>mounts\<close> and \<^verbatim>\<open>inherited\<close>.\<close>

definition inherit_step :: "Mount list \<times> string list \<Rightarrow> MountPoint \<Rightarrow> Mount list \<times> string list" where
  "inherit_step st m =
     (case st of (mounts, inherited) \<Rightarrow>
        if mp_Type m = ''tmpfs'' then (mounts, inherited)
        else (mounts @ [inherited_mount m], inherited @ [mp_Destination m]))"

text \<open>One round of the second loop.\<close>

definition declare_step :: "Project \<Rightarrow> string list \<Rightarrow> Mount list \<Rightarrow> ServiceVolumeConfig \<Rightarrow> Mount list" where
  "declare_step p inherited mounts v =
     (if contains inherited (sv_Target v) then mounts
      else mounts @ [declared_mount p v])"

definition buildContainerMountOptions ::
  "Project \<Rightarrow> ServiceConfig \<Rightarrow> Container option \<Rightarrow> Mount list" where
  "buildContainerMountOptions p s inherit =
     (case (case inherit of
              None \<Rightarrow> ([], [])
            | Some c \<Rightarrow> foldl inherit_step ([], []) (c_Mounts c)) of
        (mounts, inherited) \<Rightarrow> foldl (declare_step p inherited) mounts (s_Volumes s))"

text \<open>The mounts of the prior container that are not \<open>tmpfs\<close> mounts.\<close>

definition kept_mounts :: "Container option \<Rightarrow> MountPoint list" where
  "kept_mounts inherit =
     (case inherit of
        None \<Rightarrow> []
      | Some c \<Rightarrow> filter (\<lambda>m. mp_Type m \<noteq> ''tmpfs'') (c_Mounts c))"

text \<open>The example of the specification: a prior container with a volume \<open>V\<close> at \<open>/data\<close>
  and a \<open>tmpfs\<close> at \<open>/tmp\<close>, and a definition declaring \<open>/data\<close> and a bind of \<open>./cache\<close>.\<close>

definition example_prior :: Container where
  "example_prior =
     \<lparr>c_ID = ''c0'', c_Names = [''/demo_web_1''], c_State = ''running'', c_Labels = [],
      c_Mounts =
        [\<lparr>mp_Type = ''volume'', mp_Name = ''V'', mp_Source = ''/var/lib/docker/volumes/V/_data'',
          mp_Destination = ''/data'', mp_RW = True\<rparr>,
         \<lparr>mp_Type = ''tmpfs'', mp_Name = [], mp_Source = [], mp_Destination = ''/tmp'',
          mp_RW = True\<rparr>]\<rparr>"

definition example_volume :: "string \<Rightarrow> string \<Rightarrow> string \<Rightarrow> ServiceVolumeConfig" where
  "example_volume ty src target =
     \<lparr>sv_Type = ty, sv_Source = src, sv_Target = target, sv_ReadOnly = False,
      sv_Consistency = [], sv_Bind = None, sv_Volume = None, sv_Tmpfs = None\<rparr>"

definition example_service :: "ServiceVolumeConfig list \<Rightarrow> ServiceConfig" where
  "example_service vols =
     \<lparr>s_Name = ''web'', s_Image = ''nginx'', s_Command = [], s_Entrypoint = [],
      s_Tty = False, s_StdinOpen = False, s_NetworkMode = [], s_Networks = [],
      s_Ports = [], s_Volumes = vols\<rparr>"

definition example_project :: "ServiceConfig list \<Rightarrow> Project" where
  "example_project services =
     \<lparr>p_Name = ''demo'', p_WorkingDir = ''/srv/demo'', p_Services = services,
      p_Networks = [], p_Volumes = [], p_ComposeFiles = [''/srv/demo/compose.yaml'']\<rparr>"

section \<open>Labels, errors and outcomes\<close>

text \<open>
  The label keys and the version string are constants declared outside the source files at
  hand; the functions below take them as a parameter. Go rejects a map literal that repeats
  a constant key, so the eight keys of the label set of a container are distinct.
\<close>

record Constants =
  projectLabel :: string
  serviceLabel :: string
  versionLabel :: string
  oneoffLabel :: string
  configHashLabel :: string
  workingDirLabel :: string
  configFilesLabel :: string
  containerNumberLabel :: string
  networkLabel :: string
  volumeLabel :: string
  ComposeVersion :: string

definition container_keys :: "Constants \<Rightarrow> string list" where
  "container_keys K =
     [projectLabel K, serviceLabel K, versionLabel K, oneoffLabel K, configHashLabel K,
      workingDirLabel K, configFilesLabel K, containerNumberLabel K]"

text \<open>
  Modelled from the spec: the values of the label keys are not in the source files at hand.
  For concrete inputs the keys carry the logical names of the specification (\<open>project\<close>,
  \<open>service\<close>, \<open>schemaVersion\<close>, \<open>oneOff\<close>, \<open>configFingerprint\<close>, \<open>workingDir\<close>,
  \<open>sourceFiles\<close>, \<open>containerOrdinal\<close>), and likewise for networks and volumes.
\<close>

definition spec_constants :: Constants where
  "spec_constants =
     \<lparr>projectLabel = ''project'', serviceLabel = ''service'', versionLabel = ''schemaVersion'',
      oneoffLabel = ''oneOff'', configHashLabel = ''configFingerprint'',
      workingDirLabel = ''workingDir'', configFilesLabel = ''sourceFiles'',
      containerNumberLabel = ''containerOrdinal'', networkLabel = ''network'',
      volumeLabel = ''volume'', ComposeVersion = ''1''\<rparr>"

text \<open>
  Errors. \<open>NotFound\<close> is an error of the engine for which \<^verbatim>\<open>errdefs.IsNotFound\<close> holds and
  \<open>EngineError\<close> any other error of the engine; \<open>Errorf\<close> carries the message of a
  \<^verbatim>\<open>fmt.Errorf\<close>; \<open>NoLabel label id\<close> is the error
  \<^verbatim>\<open>fmt.Errorf("No label %q set on container %q of compose project", label, id)\<close>;
  \<open>Wrapf e msg\<close> is \<^verbatim>\<open>errors.Wrapf(e, msg)\<close>; \<open>Other\<close> is an error of a collaborator.
\<close>

datatype error =
    NotFound string
  | EngineError string
  | Errorf string
  | NoLabel string string
  | Wrapf error string
  | Other string

fun errdefs_IsNotFound :: "error \<Rightarrow> bool" where
  "errdefs_IsNotFound (NotFound _) = True"
| "errdefs_IsNotFound _ = False"

text \<open>The outcome of a call that may return a value, return an error, or panic.\<close>

datatype 'a result = Ok 'a | Err error | Panic string

section \<open>Options of a container to be created\<close>

record ContainerConfig =
  cc_Image :: string
  cc_Cmd :: "string list"
  cc_Entrypoint :: "string list"
  cc_Tty :: bool
  cc_OpenStdin :: bool
  cc_NetworkDisabled :: bool
  cc_ExposedPorts :: "string list"  \<comment> \<open>the keys of the \<^verbatim>\<open>nat.PortSet\<close>\<close>
  cc_Labels :: labels

record HostConfig =
  hc_Mounts :: "Mount list"
  hc_NetworkMode :: string
  hc_PortBindings :: "(string \<times> string list) list"
    \<comment> \<open>\<^verbatim>\<open>nat.PortMap\<close>: the \<^verbatim>\<open>HostPort\<close> of each binding of a port\<close>

type_synonym NetworkingConfig = "(string \<times> string list) list"
  \<comment> \<open>\<^verbatim>\<open>EndpointsConfig\<close>: the \<^verbatim>\<open>Aliases\<close> of the endpoint of each network\<close>

definition port_key :: "ServicePortConfig \<Rightarrow> string" where
  "port_key p = strconv_Itoa (int (pt_Target p)) @ ''/'' @ pt_Protocol p"

definition buildContainerPorts :: "ServiceConfig \<Rightarrow> string list" where
  "buildContainerPorts s =
     foldl (\<lambda>ports p. if port_key p \<in> set ports then ports else ports @ [port_key p])
       [] (s_Ports s)"

definition buildContainerBindingOptions :: "ServiceConfig \<Rightarrow> (string \<times> string list) list" where
  "buildContainerBindingOptions s =
     foldl (\<lambda>bindings port.
              AList.update (port_key port)
                [if pt_Published port > 0 then strconv_Itoa (int (pt_Published port)) else []]
                bindings)
       [] (s_Ports s)"

definition getNetworksForService :: "ServiceConfig \<Rightarrow> (string \<times> string list option) list" where
  "getNetworksForService s =
     (if length (s_Networks s) > 0 then s_Networks s else [(''default'', None)])"

text \<open>\<^verbatim>\<open>p.Networks[name].Name\<close>: the zero value, the empty name, for a missing key.\<close>

definition network_name_at :: "(string \<times> NetworkConfig) list \<Rightarrow> string \<Rightarrow> string" where
  "network_name_at networks name =
     (case map_of networks name of None \<Rightarrow> [] | Some n \<Rightarrow> n_Name n)"

text \<open>
  \<^verbatim>\<open>getNetworkMode\<close>. The loop over the networks of the service returns in its first
  round, for the first key of the iteration.
\<close>

definition getNetworkMode :: "Project \<Rightarrow> ServiceConfig \<Rightarrow> string result" where
  "getNetworkMode p service =
     (let mode = s_NetworkMode service in
      if mode = [] then
        (if length (p_Networks p) > 0 then
           (case getNetworksForService service of
              (name, _) # _ \<Rightarrow> Ok (network_name_at (p_Networks p) name)
            | [] \<Rightarrow> Ok ''none'')
         else Ok ''none'')
      else if strings_HasPrefix mode ''service:'' then Panic ''Not yet implemented''
      else if strings_HasPrefix mode ''container:'' then Panic ''Not yet implemented''
      else Ok mode)"

definition getAliases :: "ServiceConfig \<Rightarrow> string list option \<Rightarrow> string list" where
  "getAliases s c = (case c of None \<Rightarrow> [s_Name s] | Some aliases \<Rightarrow> [s_Name s] @ aliases)"

definition buildDefaultNetworkConfig :: "ServiceConfig \<Rightarrow> string \<Rightarrow> NetworkingConfig" where
  "buildDefaultNetworkConfig s networkMode =
     [(networkMode,
       getAliases s (case map_of (s_Networks s) networkMode of None \<Rightarrow> None | Some c \<Rightarrow> c))]"

text \<open>The label set of a container, the map literal of \<^verbatim>\<open>getContainerCreateOptions\<close>.\<close>

definition container_labels ::
  "Constants \<Rightarrow> Project \<Rightarrow> ServiceConfig \<Rightarrow> string \<Rightarrow> int \<Rightarrow> labels" where
  "container_labels K p s hash number =
     [(projectLabel K, p_Name p),
      (serviceLabel K, s_Name s),
      (versionLabel K, ComposeVersion K),
      (oneoffLabel K, ''False''),
      (configHashLabel K, hash),
      (workingDirLabel K, p_WorkingDir p),
      (configFilesLabel K, strings_Join (p_ComposeFiles p) '',''),
      (containerNumberLabel K, strconv_Itoa number)]"

text \<open>
  \<^verbatim>\<open>getContainerCreateOptions\<close>. The helper \<^verbatim>\<open>jsonHash\<close> is declared outside the source
  files at hand and is a parameter. The fields of the configuration that are copied from the
  service or converted by helpers that are not at hand (environment, health check, stop
  timeout and the like) are left out; none of them can end the call.
\<close>

definition getContainerCreateOptions ::
  "Constants \<Rightarrow> (ServiceConfig \<Rightarrow> error + string) \<Rightarrow> Project \<Rightarrow> ServiceConfig \<Rightarrow> int \<Rightarrow>
   Container option \<Rightarrow> (ContainerConfig \<times> HostConfig \<times> NetworkingConfig) result" where
  "getContainerCreateOptions K jsonHash p s number inherit =
     (case jsonHash s of
        Inl err \<Rightarrow> Err err
      | Inr hash \<Rightarrow>
          (let labels = container_labels K p s hash number;
               runCmd = (if length (s_Command s) > 0 then s_Command s else []);
               entrypoint = (if length (s_Entrypoint s) > 0 then s_Entrypoint s else []);
               image = (if s_Image s = [] then p_Name p @ ''_'' @ s_Name s else s_Image s);
               containerConfig =
                 \<lparr>cc_Image = image, cc_Cmd = runCmd, cc_Entrypoint = entrypoint,
                  cc_Tty = s_Tty s, cc_OpenStdin = s_StdinOpen s,
                  cc_NetworkDisabled = (s_NetworkMode s = ''disabled''),
                  cc_ExposedPorts = buildContainerPorts s, cc_Labels = labels\<rparr>;
               mountOptions = buildContainerMountOptions p s inherit;
               bindings = buildContainerBindingOptions s
           in case getNetworkMode p s of
                Panic msg \<Rightarrow> Panic msg
              | Err err \<Rightarrow> Err err
              | Ok networkMode \<Rightarrow>
                  Ok (containerConfig,
                      \<lparr>hc_Mounts = mountOptions, hc_NetworkMode = networkMode,
                       hc_PortBindings = bindings\<rparr>,
                      buildDefaultNetworkConfig s networkMode)))"

section \<open>Project options recovered from labels\<close>

text \<open>
  \<^verbatim>\<open>cli.ProjectOptions\<close> of \<^verbatim>\<open>compose-go\<close>, with the fields that are read back here.
  \<^verbatim>\<open>cli.NewProjectOptions\<close> stores the configuration paths and applies the option
  functions in order, stopping at the first error; \<^verbatim>\<open>WithWorkingDirectory\<close> and
  \<^verbatim>\<open>WithName\<close> store their argument, and \<^verbatim>\<open>WithOsEnv\<close> fills the environment, which is
  not among the fields kept here.
\<close>

record ProjectOptions =
  po_Name :: string
  po_WorkingDir :: string
  po_ConfigPaths :: "string list"

definition WithOsEnv :: "ProjectOptions \<Rightarrow> error + ProjectOptions" where
  "WithOsEnv options = Inr options"

definition WithWorkingDirectory :: "string \<Rightarrow> ProjectOptions \<Rightarrow> error + ProjectOptions" where
  "WithWorkingDirectory wd options = Inr (options\<lparr>po_WorkingDir := wd\<rparr>)"

definition WithName :: "string \<Rightarrow> ProjectOptions \<Rightarrow> error + ProjectOptions" where
  "WithName name options = Inr (options\<lparr>po_Name := name\<rparr>)"

fun apply_options ::
  "(ProjectOptions \<Rightarrow> error + ProjectOptions) list \<Rightarrow> ProjectOptions \<Rightarrow> error + ProjectOptions" where
  "apply_options [] options = Inr options"
| "apply_options (opt # opts) options =
     (case opt options of Inl err \<Rightarrow> Inl err | Inr options' \<Rightarrow> apply_options opts options')"

definition NewProjectOptions ::
  "string list \<Rightarrow> (ProjectOptions \<Rightarrow> error + ProjectOptions) list \<Rightarrow> error + ProjectOptions" where
  "NewProjectOptions configs opts =
     apply_options opts \<lparr>po_Name = [], po_WorkingDir = [], po_ConfigPaths = configs\<rparr>"

definition loadProjectOptionsFromLabels :: "Constants \<Rightarrow> Container \<Rightarrow> error + ProjectOptions" where
  "loadProjectOptionsFromLabels K c =
     (let relativePathConfigFiles = split_byte CHR '','' (label_at (c_Labels c) (configFilesLabel K));
          configFiles = foldl (\<lambda>configFiles f. configFiles @ [filepath_Base f]) []
                          relativePathConfigFiles
      in NewProjectOptions configFiles
           [WithOsEnv,
            WithWorkingDirectory (label_at (c_Labels c) (workingDirLabel K)),
            WithName (label_at (c_Labels c) (projectLabel K))])"

text \<open>A container that carries the given labels, as the engine lists it.\<close>

definition labelled_container :: "string \<Rightarrow> string \<Rightarrow> labels \<Rightarrow> Container" where
  "labelled_container cid state ls =
     \<lparr>c_ID = cid, c_Names = [''/'' @ cid], c_State = state, c_Labels = ls, c_Mounts = []\<rparr>"

text \<open>A stand-in for the fingerprint helper on concrete inputs: it always succeeds.\<close>

definition example_hash :: "ServiceConfig \<Rightarrow> error + string" where
  "example_hash s = Inr (''sha256:'' @ s_Name s)"

text \<open>
  Encoding a project in the labels of a container and decoding the labels again: the options
  recovered from a container that carries the label set built for the project.
\<close>

definition decoded_options ::
  "Constants \<Rightarrow> (ServiceConfig \<Rightarrow> error + string) \<Rightarrow> Project \<Rightarrow> ServiceConfig \<Rightarrow> int \<Rightarrow>
   Container option \<Rightarrow> (error + ProjectOptions) result" where
  "decoded_options K jsonHash p s number inherit =
     (case getContainerCreateOptions K jsonHash p s number inherit of
        Ok (cfg, host, net) \<Rightarrow>
          Ok (loadProjectOptionsFromLabels K (labelled_container ''c1'' ''running'' (cc_Labels cfg)))
      | Err err \<Rightarrow> Err err
      | Panic msg \<Rightarrow> Panic msg)"

text \<open>A project whose source files are plain file names.\<close>

definition plain_project :: Project where
  "plain_project =
     \<lparr>p_Name = ''demo'', p_WorkingDir = ''/srv/demo'', p_Services = [],
      p_Networks = [], p_Volumes = [],
      p_ComposeFiles = [''compose.yaml'', ''compose.override.yaml'']\<rparr>"

definition plain_config :: ContainerConfig where
  "plain_config =
     \<lparr>cc_Image = ''nginx'', cc_Cmd = [], cc_Entrypoint = [], cc_Tty = False,
      cc_OpenStdin = False, cc_NetworkDisabled = False, cc_ExposedPorts = [],
      cc_Labels =
        [(''project'', ''demo''), (''service'', ''web''), (''schemaVersion'', ''1''),
         (''oneOff'', ''False''), (''configFingerprint'', ''sha256:web''),
         (''workingDir'', ''/srv/demo''),
         (''sourceFiles'', ''compose.yaml,compose.override.yaml''),
         (''containerOrdinal'', ''1'')]\<rparr>"

definition plain_host :: HostConfig where
  "plain_host = \<lparr>hc_Mounts = [], hc_NetworkMode = ''none'', hc_PortBindings = []\<rparr>"

section \<open>The container engine and the state around a call\<close>

text \<open>
  The engine is an external collaborator reached by atomic remote calls. Its model here keeps
  the containers, networks and volumes that it lists, answers a request from them, and can
  be told to fail any request (\<open>w_fault\<close>). Every request is recorded in \<open>w_calls\<close>, in the
  order in which it is issued. The state also holds the progress events written so far and
  the store of label maps of the program.
\<close>

datatype label_filter = LabelIs string string | HasLabel string

record NetworkCreate =
  nc_Labels :: labels
  nc_Driver :: string
  nc_Options :: labels
  nc_Internal :: bool
  nc_Attachable :: bool
  nc_IPAM :: "IPAMConfig option"

record VolumeCreateBody =
  vc_Labels :: labels
  vc_Name :: string
  vc_Driver :: string
  vc_DriverOpts :: labels

datatype request =
    ContainerListCall "label_filter list"
  | ContainerStopCall string
  | ContainerRemoveCall string
  | NetworkInspectCall string
  | NetworkCreateCall string NetworkCreate
  | NetworkListCall "label_filter list"
  | NetworkRemoveCall string
  | VolumeInspectCall string
  | VolumeCreateCall VolumeCreateBody

record NetworkResource =
  nr_ID :: string
  nr_Name :: string
  nr_Labels :: labels

text \<open>
  Modelled from the spec: the package \<^verbatim>\<open>progress\<close> is not among the source files at hand.
  A reconciliation unit reports the transitions of a named event, Working and then Done or
  Error. An event is named after the resource it is about: \<open>Network n\<close> stands for the name
  \<^verbatim>\<open>fmt.Sprintf("Network %q", n)\<close>, \<open>Volume n\<close> for \<^verbatim>\<open>fmt.Sprintf("Volume %q", n)\<close>
  and \<open>ContainerNamed n\<close> for \<^verbatim>\<open>"Container " + n\<close>. Each constructor of \<open>Event\<close> is
  the event built by the function of that name.
\<close>

datatype resource = Network string | Volume string | ContainerNamed string

datatype Event =
    CreatingEvent resource
  | CreatedEvent resource
  | ErrorEvent resource
  | ErrorMessageEvent resource string
  | StoppingEvent resource
  | RemovingEvent resource
  | RemovedEvent resource

record World =
  w_containers :: "Container list"
  w_networks :: "NetworkResource list"
  w_volumes :: "VolumeCreateBody list"
  w_fault :: "request \<Rightarrow> error option"
  w_calls :: "request list"
  w_events :: "Event list"
  w_labels :: "(nat \<times> labels) list"

definition Event_write :: "Event \<Rightarrow> World \<Rightarrow> World" where
  "Event_write e w = w\<lparr>w_events := w_events w @ [e]\<rparr>"

definition record_call :: "request \<Rightarrow> World \<Rightarrow> World" where
  "record_call r w = w\<lparr>w_calls := w_calls w @ [r]\<rparr>"

fun matches :: "labels \<Rightarrow> label_filter \<Rightarrow> bool" where
  "matches ls (LabelIs k v) = (map_of ls k = Some v)"
| "matches ls (HasLabel k) = (map_of ls k \<noteq> None)"

definition ContainerList :: "label_filter list \<Rightarrow> World \<Rightarrow> (error + Container list) \<times> World" where
  "ContainerList fs w =
     (case w_fault w (ContainerListCall fs) of
        Some err \<Rightarrow> (Inl err, record_call (ContainerListCall fs) w)
      | None \<Rightarrow>
          (Inr (filter (\<lambda>c. list_all (matches (c_Labels c)) fs) (w_containers w)),
           record_call (ContainerListCall fs) w))"

definition ContainerStop :: "string \<Rightarrow> World \<Rightarrow> error option \<times> World" where
  "ContainerStop cid w =
     (let w1 = record_call (ContainerStopCall cid) w in
      case w_fault w (ContainerStopCall cid) of
        Some err \<Rightarrow> (Some err, w1)
      | None \<Rightarrow>
          if cid \<in> set (map c_ID (w_containers w)) then
            (None, w1\<lparr>w_containers :=
               map (\<lambda>c. if c_ID c = cid then c\<lparr>c_State := ''exited''\<rparr> else c) (w_containers w)\<rparr>)
          else (Some (NotFound cid), w1))"

definition ContainerRemove :: "string \<Rightarrow> World \<Rightarrow> error option \<times> World" where
  "ContainerRemove cid w =
     (let w1 = record_call (ContainerRemoveCall cid) w in
      case w_fault w (ContainerRemoveCall cid) of
        Some err \<Rightarrow> (Some err, w1)
      | None \<Rightarrow>
          if cid \<in> set (map c_ID (w_containers w)) then
            (None, w1\<lparr>w_containers := filter (\<lambda>c. c_ID c \<noteq> cid) (w_containers w)\<rparr>)
          else (Some (NotFound cid), w1))"

text \<open>A network is found by its name or by its identifier.\<close>

definition network_known :: "World \<Rightarrow> string \<Rightarrow> bool" where
  "network_known w n = (n \<in> set (map nr_Name (w_networks w)) \<or> n \<in> set (map nr_ID (w_networks w)))"

definition NetworkInspect :: "string \<Rightarrow> World \<Rightarrow> error option \<times> World" where
  "NetworkInspect name w =
     (let w1 = record_call (NetworkInspectCall name) w in
      case w_fault w (NetworkInspectCall name) of
        Some err \<Rightarrow> (Some err, w1)
      | None \<Rightarrow> if network_known w name then (None, w1) else (Some (NotFound name), w1))"

text \<open>The engine chooses the identifier of a new network; the model takes its name.\<close>

definition NetworkCreate :: "string \<Rightarrow> NetworkCreate \<Rightarrow> World \<Rightarrow> error option \<times> World" where
  "NetworkCreate name opts w =
     (let w1 = record_call (NetworkCreateCall name opts) w in
      case w_fault w (NetworkCreateCall name opts) of
        Some err \<Rightarrow> (Some err, w1)
      | None \<Rightarrow>
          (None, w1\<lparr>w_networks :=
             w_networks w @ [\<lparr>nr_ID = name, nr_Name = name, nr_Labels = nc_Labels opts\<rparr>]\<rparr>))"

definition NetworkList :: "label_filter list \<Rightarrow> World \<Rightarrow> (error + NetworkResource list) \<times> World" where
  "NetworkList fs w =
     (case w_fault w (NetworkListCall fs) of
        Some err \<Rightarrow> (Inl err, record_call (NetworkListCall fs) w)
      | None \<Rightarrow>
          (Inr (filter (\<lambda>n. list_all (matches (nr_Labels n)) fs) (w_networks w)),
           record_call (NetworkListCall fs) w))"

definition NetworkRemove :: "string \<Rightarrow> World \<Rightarrow> error option \<times> World" where
  "NetworkRemove networkID w =
     (let w1 = record_call (NetworkRemoveCall networkID) w in
      case w_fault w (NetworkRemoveCall networkID) of
        Some err \<Rightarrow> (Some err, w1)
      | None \<Rightarrow>
          if network_known w networkID then
            (None, w1\<lparr>w_networks :=
               filter (\<lambda>n. nr_ID n \<noteq> networkID \<and> nr_Name n \<noteq> networkID) (w_networks w)\<rparr>)
          else (Some (NotFound networkID), w1))"

definition VolumeInspect :: "string \<Rightarrow> World \<Rightarrow> error option \<times> World" where
  "VolumeInspect name w =
     (let w1 = record_call (VolumeInspectCall name) w in
      case w_fault w (VolumeInspectCall name) of
        Some err \<Rightarrow> (Some err, w1)
      | None \<Rightarrow>
          if name \<in> set (map vc_Name (w_volumes w)) then (None, w1)
          else (Some (NotFound name), w1))"

definition VolumeCreate :: "VolumeCreateBody \<Rightarrow> World \<Rightarrow> error option \<times> World" where
  "VolumeCreate body w =
     (let w1 = record_call (VolumeCreateCall body) w in
      case w_fault w (VolumeCreateCall body) of
        Some err \<Rightarrow> (Some err, w1)
      | None \<Rightarrow> (None, w1\<lparr>w_volumes := w_volumes w @ [body]\<rparr>))"

subsection \<open>Label maps\<close>

text \<open>The contents of the label map behind a \<^verbatim>\<open>Labels\<close> field; the \<^verbatim>\<open>nil\<close> map is empty.\<close>

definition labels_of :: "World \<Rightarrow> nat option \<Rightarrow> labels" where
  "labels_of w l =
     (case l of
        None \<Rightarrow> []
      | Some r \<Rightarrow> (case map_of (w_labels w) r of None \<Rightarrow> [] | Some ls \<Rightarrow> ls))"

definition fresh_ref :: "World \<Rightarrow> nat" where
  "fresh_ref w = Suc (foldr max (map fst (w_labels w)) 0)"

text \<open>
  \<^verbatim>\<open>Labels.Add\<close> of \<^verbatim>\<open>compose-go\<close>: a \<^verbatim>\<open>nil\<close> receiver is replaced by a new map; the entry
  is then written into the map, in place, and the map is returned.
\<close>

definition Labels_Add :: "nat option \<Rightarrow> string \<Rightarrow> string \<Rightarrow> World \<Rightarrow> nat option \<times> World" where
  "Labels_Add l key val w =
     (case l of
        None \<Rightarrow>
          (Some (fresh_ref w), w\<lparr>w_labels := w_labels w @ [(fresh_ref w, [(key, val)])]\<rparr>)
      | Some r \<Rightarrow>
          (Some r, w\<lparr>w_labels := AList.update r (AList.update key val (labels_of w l)) (w_labels w)\<rparr>))"

section \<open>Ensuring networks and volumes\<close>

definition ensureNetwork :: "NetworkConfig \<Rightarrow> World \<Rightarrow> error option \<times> World" where
  "ensureNetwork n w =
     (case NetworkInspect (n_Name n) w of
        (None, w1) \<Rightarrow> (None, w1)
      | (Some err, w1) \<Rightarrow>
          if errdefs_IsNotFound err then
            (if n_External n then
               (Some (Errorf (''network '' @ n_Name n @ '' declared as external, but could not be found'')),
                w1)
             else
               (let ipam0 = (if ipam_Driver (n_Ipam n) \<noteq> [] \<or> length (ipam_Config (n_Ipam n)) > 0
                             then Some \<lparr>ipam_Driver = [], ipam_Config = []\<rparr> else None);
                    ipam1 = (if ipam_Driver (n_Ipam n) \<noteq> []
                             then map_option (\<lambda>i. i\<lparr>ipam_Driver := ipam_Driver (n_Ipam n)\<rparr>) ipam0
                             else ipam0);
                    ipam2 = foldl (\<lambda>ipam subnet.
                                     map_option (\<lambda>i. i\<lparr>ipam_Config := ipam_Config i @ [subnet]\<rparr>) ipam)
                              ipam1 (ipam_Config (n_Ipam n));
                    createOpts =
                      \<lparr>nc_Labels = labels_of w1 (n_Labels n), nc_Driver = n_Driver n,
                       nc_Options = n_DriverOpts n, nc_Internal = n_Internal n,
                       nc_Attachable = n_Attachable n, nc_IPAM = ipam2\<rparr>;
                    w2 = Event_write (CreatingEvent (Network (n_Name n))) w1
                in case NetworkCreate (n_Name n) createOpts w2 of
                     (Some err', w3) \<Rightarrow>
                       (Some (Wrapf err' (''failed to create network '' @ n_Name n)),
                        Event_write (ErrorEvent (Network (n_Name n))) w3)
                   | (None, w3) \<Rightarrow>
                       (None, Event_write (CreatedEvent (Network (n_Name n))) w3)))
          else (Some err, w1))"

text \<open>
  \<^verbatim>\<open>ensureVolume\<close>. The error of \<^verbatim>\<open>VolumeCreate\<close> is declared with \<^verbatim>\<open>:=\<close> inside the
  block of the not-found case and is a variable of that block; the \<^verbatim>\<open>return err\<close> after
  the block returns the error of \<^verbatim>\<open>VolumeInspect\<close>.
\<close>

definition ensureVolume :: "VolumeConfig \<Rightarrow> World \<Rightarrow> error option \<times> World" where
  "ensureVolume volume w =
     (case VolumeInspect (v_Name volume) w of
        (None, w1) \<Rightarrow> (None, w1)
      | (Some err, w1) \<Rightarrow>
          if errdefs_IsNotFound err then
            (let w2 = Event_write (CreatingEvent (Volume (v_Name volume))) w1 in
             case VolumeCreate
                    \<lparr>vc_Labels = labels_of w2 (v_Labels volume), vc_Name = v_Name volume,
                     vc_Driver = v_Driver volume, vc_DriverOpts = v_DriverOpts volume\<rparr> w2 of
               (Some err', w3) \<Rightarrow> (Some err', Event_write (ErrorEvent (Volume (v_Name volume))) w3)
             | (None, w3) \<Rightarrow> (Some err, Event_write (CreatedEvent (Volume (v_Name volume))) w3))
          else (Some err, w1))"

definition ensureNetworkDown :: "string \<Rightarrow> string \<Rightarrow> World \<Rightarrow> error option \<times> World" where
  "ensureNetworkDown networkID networkName w =
     (let w1 = Event_write (RemovingEvent (Network networkName)) w in
      case NetworkRemove networkID w1 of
        (Some err, w2) \<Rightarrow>
          (Some (Wrapf err (''failed to create network '' @ networkID)),
           Event_write (ErrorEvent (Network networkName)) w2)
      | (None, w2) \<Rightarrow> (None, Event_write (RemovedEvent (Network networkName)) w2))"

section \<open>Collaborators\<close>

text \<open>
  Functions of the repository that are not among the source files at hand, and the
  specification loader of \<^verbatim>\<open>compose-go\<close>, are parameters of the model. The walks over the
  dependency graph take the action to run for a service; the actions of \<^verbatim>\<open>Down\<close> work on
  the state of the engine together with the first error of the error group. The
  collaborators read the project and leave it as it is.
\<close>

type_synonym group_state = "World \<times> error option"

record Collaborators =
  ensureImagesExists :: "Project \<Rightarrow> World \<Rightarrow> error option \<times> World"
  ensureService :: "Project \<Rightarrow> ServiceConfig \<Rightarrow> World \<Rightarrow> error option \<times> World"
  InDependencyOrder ::
    "Project \<Rightarrow> (ServiceConfig \<Rightarrow> World \<Rightarrow> error option \<times> World) \<Rightarrow> World \<Rightarrow> error option \<times> World"
  InReverseDependencyOrder ::
    "Project \<Rightarrow> (ServiceConfig \<Rightarrow> group_state \<Rightarrow> unit result \<times> group_state) \<Rightarrow>
     group_state \<Rightarrow> unit result \<times> group_state"
  ProjectFromOptions :: "ProjectOptions \<Rightarrow> error + Project"

text \<open>
  Modelled from the spec: the filters \<^verbatim>\<open>projectFilter\<close>, \<^verbatim>\<open>serviceFilter\<close> and
  \<^verbatim>\<open>hasProjectLabelFilter\<close> are declared outside the source files at hand. The runtime is
  queried for the containers carrying the project-identity label equal to the requested
  name, for those of one service of the project, and for those carrying the project label.
\<close>

definition projectFilter :: "Constants \<Rightarrow> string \<Rightarrow> label_filter" where
  "projectFilter K projectName = LabelIs (projectLabel K) projectName"

definition serviceFilter :: "Constants \<Rightarrow> string \<Rightarrow> label_filter" where
  "serviceFilter K serviceName = LabelIs (serviceLabel K) serviceName"

definition hasProjectLabelFilter :: "Constants \<Rightarrow> label_filter" where
  "hasProjectLabelFilter K = HasLabel (projectLabel K)"

section \<open>Up\<close>

text \<open>
  The loops of \<^verbatim>\<open>Up\<close> over the networks and the volumes of the project. The loop
  variable is a copy of the entry; \<^verbatim>\<open>project.Networks[k] = network\<close> writes the renamed
  copy back into the project before the labels are added to it. The loop ends at the first
  error of an \<open>ensure\<close> call.
\<close>

fun Up_networks ::
  "Constants \<Rightarrow> (string \<times> NetworkConfig) list \<Rightarrow> Project \<Rightarrow> World \<Rightarrow> error option \<times> Project \<times> World" where
  "Up_networks K [] project w = (None, project, w)"
| "Up_networks K ((k, network) # rest) project w =
     (let renamed = (\<not> n_External network \<and> n_Name network = k);
          network1 = (if renamed then network\<lparr>n_Name := p_Name project @ ''_'' @ k\<rparr> else network);
          project1 = (if renamed
                      then project\<lparr>p_Networks := AList.update k network1 (p_Networks project)\<rparr>
                      else project)
      in case Labels_Add (n_Labels network1) (networkLabel K) k w of (l1, w1) \<Rightarrow>
         case Labels_Add l1 (projectLabel K) (p_Name project) w1 of (l2, w2) \<Rightarrow>
         case Labels_Add l2 (versionLabel K) (ComposeVersion K) w2 of (l3, w3) \<Rightarrow>
         case ensureNetwork (network1\<lparr>n_Labels := l3\<rparr>) w3 of
           (Some err, w4) \<Rightarrow> (Some err, project1, w4)
         | (None, w4) \<Rightarrow> Up_networks K rest project1 w4)"

fun Up_volumes ::
  "Constants \<Rightarrow> (string \<times> VolumeConfig) list \<Rightarrow> Project \<Rightarrow> World \<Rightarrow> error option \<times> Project \<times> World" where
  "Up_volumes K [] project w = (None, project, w)"
| "Up_volumes K ((k, volume) # rest) project w =
     (let renamed = (\<not> v_External volume \<and> v_Name volume \<noteq> []);
          volume1 = (if renamed then volume\<lparr>v_Name := p_Name project @ ''_'' @ k\<rparr> else volume);
          project1 = (if renamed
                      then project\<lparr>p_Volumes := AList.update k volume1 (p_Volumes project)\<rparr>
                      else project)
      in case Labels_Add (v_Labels volume1) (volumeLabel K) k w of (l1, w1) \<Rightarrow>
         case Labels_Add l1 (projectLabel K) (p_Name project) w1 of (l2, w2) \<Rightarrow>
         case Labels_Add l2 (versionLabel K) (ComposeVersion K) w2 of (l3, w3) \<Rightarrow>
         case ensureVolume (volume1\<lparr>v_Labels := l3\<rparr>) w3 of
           (Some err, w4) \<Rightarrow> (Some err, project1, w4)
         | (None, w4) \<Rightarrow> Up_volumes K rest project1 w4)"

text \<open>\<^verbatim>\<open>Up\<close> returns its error; the model also returns the project as \<^verbatim>\<open>Up\<close> leaves it.\<close>

definition Up ::
  "Constants \<Rightarrow> Collaborators \<Rightarrow> Project \<Rightarrow> bool \<Rightarrow> World \<Rightarrow> error option \<times> Project \<times> World" where
  "Up K C project detach w =
     (case ensureImagesExists C project w of
        (Some err, w1) \<Rightarrow> (Some err, project, w1)
      | (None, w1) \<Rightarrow>
          (case Up_networks K (p_Networks project) project w1 of
             (Some err, project1, w2) \<Rightarrow> (Some err, project1, w2)
           | (None, project1, w2) \<Rightarrow>
               (case Up_volumes K (p_Volumes project1) project1 w2 of
                  (Some err, project2, w3) \<Rightarrow> (Some err, project2, w3)
                | (None, project2, w3) \<Rightarrow>
                    (case InDependencyOrder C project2 (ensureService C project2) w3 of
                       (err, w4) \<Rightarrow> (err, project2, w4)))))"

section \<open>Rebuilding a project from labels, and Down\<close>

definition zero_ServiceConfig :: ServiceConfig where
  "zero_ServiceConfig =
     \<lparr>s_Name = [], s_Image = [], s_Command = [], s_Entrypoint = [], s_Tty = False,
      s_StdinOpen = False, s_NetworkMode = [], s_Networks = [], s_Ports = [], s_Volumes = []\<rparr>"

definition zero_Project :: Project where
  "zero_Project =
     \<lparr>p_Name = [], p_WorkingDir = [], p_Services = [], p_Networks = [], p_Volumes = [],
      p_ComposeFiles = []\<rparr>"

definition projectFromContainerLabels ::
  "Constants \<Rightarrow> Collaborators \<Rightarrow> string \<Rightarrow> World \<Rightarrow> Project option result \<times> World" where
  "projectFromContainerLabels K C projectName w =
     (case ContainerList [projectFilter K projectName] w of
        (Inl err, w1) \<Rightarrow> (Err err, w1)
      | (Inr containers, w1) \<Rightarrow>
          (case containers of
             [] \<Rightarrow> (Ok None, w1)
           | c0 # _ \<Rightarrow>
               (case loadProjectOptionsFromLabels K c0 of
                  Inl err \<Rightarrow> (Err err, w1)
                | Inr options \<Rightarrow>
                    (case po_ConfigPaths options of
                       [] \<Rightarrow> (Panic ''index out of range'', w1)
                     | path0 # _ \<Rightarrow>
                         if path0 = ''-'' then
                           (Ok (Some
                              (foldl (\<lambda>fakeProject container.
                                        fakeProject\<lparr>p_Services := p_Services fakeProject
                                          @ [zero_ServiceConfig
                                               \<lparr>s_Name := label_at (c_Labels container) (serviceLabel K)\<rparr>]\<rparr>)
                                 (zero_Project\<lparr>p_Name := projectName\<rparr>) containers)),
                            w1)
                         else
                           (case ProjectFromOptions C options of
                              Inl err \<Rightarrow> (Err err, w1)
                            | Inr project \<Rightarrow> (Ok (Some project), w1))))))"

text \<open>\<^verbatim>\<open>strings.LastIndex(s, sep)\<close> for a separator of one byte: \<open>-1\<close> when it is absent.\<close>

definition strings_LastIndex :: "string \<Rightarrow> char \<Rightarrow> int" where
  "strings_LastIndex s sep =
     (if sep \<in> set s
      then int (length s) - 1 - int (length (takeWhile (\<lambda>c. c \<noteq> sep) (rev s)))
      else - 1)"

text \<open>
  \<^verbatim>\<open>getContainerName\<close>: \<^verbatim>\<open>c.Names[0][1:]\<close> panics for a container without a name or with
  an empty first name.
\<close>

definition getContainerName :: "Container \<Rightarrow> string result" where
  "getContainerName c =
     (case find (\<lambda>name. strings_LastIndex name CHR ''/'' = 0) (c_Names c) of
        Some name \<Rightarrow> Ok (drop 1 name)
      | None \<Rightarrow>
          (case c_Names c of
             [] \<Rightarrow> Panic ''index out of range''
           | name0 # _ \<Rightarrow>
               if length name0 < 1 then Panic ''slice bounds out of range'' else Ok (drop 1 name0)))"

text \<open>
  The error group. The model runs a unit of work when it is launched and to its end: this is
  one of the schedules of the program. The group keeps the first error of its units;
  \<^verbatim>\<open>eg.Wait()\<close> returns it. A panic of a unit ends the program.
\<close>

definition eg_Go :: "(World \<Rightarrow> unit result \<times> World) \<Rightarrow> group_state \<Rightarrow> unit result \<times> group_state" where
  "eg_Go f st =
     (case st of (w, eg) \<Rightarrow>
        (case f w of
           (Panic msg, w') \<Rightarrow> (Panic msg, (w', eg))
         | (Err err, w') \<Rightarrow> (Ok (), (w', (case eg of None \<Rightarrow> Some err | Some first \<Rightarrow> Some first)))
         | (Ok u, w') \<Rightarrow> (Ok (), (w', eg))))"

text \<open>The unit of work of \<^verbatim>\<open>removeContainers\<close> for one container.\<close>

definition remove_unit :: "Container \<Rightarrow> World \<Rightarrow> unit result \<times> World" where
  "remove_unit container w =
     (case getContainerName container of
        Panic msg \<Rightarrow> (Panic msg, w)
      | Err err \<Rightarrow> (Err err, w)
      | Ok name \<Rightarrow>
          (let w1 = Event_write (StoppingEvent (ContainerNamed name)) w in
           case ContainerStop (c_ID container) w1 of
             (Some err, w2) \<Rightarrow>
               (Err err, Event_write (ErrorMessageEvent (ContainerNamed name) ''Error while Stopping'') w2)
           | (None, w2) \<Rightarrow>
               (let w3 = Event_write (RemovingEvent (ContainerNamed name)) w2 in
                case ContainerRemove (c_ID container) w3 of
                  (Some err, w4) \<Rightarrow>
                    (Err err,
                     Event_write (ErrorMessageEvent (ContainerNamed name) ''Error while Removing'') w4)
                | (None, w4) \<Rightarrow> (Ok (), Event_write (RemovedEvent (ContainerNamed name)) w4))))"

fun launch_all ::
  "(World \<Rightarrow> unit result \<times> World) list \<Rightarrow> group_state \<Rightarrow> unit result \<times> group_state" where
  "launch_all [] st = (Ok (), st)"
| "launch_all (f # fs) st =
     (case eg_Go f st of
        (Panic msg, st') \<Rightarrow> (Panic msg, st')
      | (_, st') \<Rightarrow> launch_all fs st')"

definition removeContainers :: "label_filter list \<Rightarrow> group_state \<Rightarrow> unit result \<times> group_state" where
  "removeContainers fs st =
     (case st of (w, eg) \<Rightarrow>
        (case ContainerList fs w of
           (Inl err, w1) \<Rightarrow> (Err err, (w1, eg))
         | (Inr containers, w1) \<Rightarrow> launch_all (map remove_unit containers) (w1, eg)))"

definition network_unit :: "NetworkResource \<Rightarrow> World \<Rightarrow> unit result \<times> World" where
  "network_unit n w =
     (case ensureNetworkDown (nr_ID n) (nr_Name n) w of
        (Some err, w') \<Rightarrow> (Err err, w')
      | (None, w') \<Rightarrow> (Ok (), w'))"

definition eg_Wait :: "error option \<Rightarrow> unit result" where
  "eg_Wait eg = (case eg of None \<Rightarrow> Ok () | Some err \<Rightarrow> Err err)"

definition Down :: "Constants \<Rightarrow> Collaborators \<Rightarrow> string \<Rightarrow> World \<Rightarrow> unit result \<times> World" where
  "Down K C projectName w =
     (case projectFromContainerLabels K C projectName w of
        (Panic msg, w1) \<Rightarrow> (Panic msg, w1)
      | (Err err, w1) \<Rightarrow> (Err err, w1)
      | (Ok None, w1) \<Rightarrow> (Ok (), w1)
      | (Ok (Some project), w1) \<Rightarrow>
          (case InReverseDependencyOrder C project
                  (\<lambda>service. removeContainers
                     [projectFilter K (p_Name project), serviceFilter K (s_Name service)])
                  (w1, None) of
             (Panic msg, (w2, eg)) \<Rightarrow> (Panic msg, w2)
           | (Err err, (w2, eg)) \<Rightarrow> (Err err, w2)
           | (Ok u, (w2, eg)) \<Rightarrow>
               (case eg_Wait eg of
                  Panic msg \<Rightarrow> (Panic msg, w2)
                | Err err \<Rightarrow> (Err err, w2)
                | Ok u' \<Rightarrow>
                    (case NetworkList [projectFilter K projectName] w2 of
                       (Inl err, w3) \<Rightarrow> (Err err, w3)
                     | (Inr networks, w3) \<Rightarrow>
                         (case launch_all (map network_unit networks) (w3, eg) of
                            (Panic msg, (w4, eg')) \<Rightarrow> (Panic msg, w4)
                          | (_, (w4, eg')) \<Rightarrow> (eg_Wait eg', w4))))))"

section \<open>Ps and List\<close>

record ServiceStatus =
  ss_ID :: string
  ss_Name :: string
  ss_Desired :: int
  ss_Replicas :: int

record Stack =
  st_ID :: string
  st_Name :: string
  st_Status :: string

text \<open>The loop of \<^verbatim>\<open>groupContainerByLabel\<close>: it returns at the first container without
  the label.\<close>

fun group_loop ::
  "string \<Rightarrow> Container list \<Rightarrow> (string \<rightharpoonup> Container list) \<times> string list \<Rightarrow>
   error + (string \<rightharpoonup> Container list) \<times> string list" where
  "group_loop labelName [] st = Inr st"
| "group_loop labelName (c # cs) st =
     (case st of (containersByLabel, keys) \<Rightarrow>
        (case map_of (c_Labels c) labelName of
           None \<Rightarrow> Inl (NoLabel labelName (c_ID c))
         | Some label \<Rightarrow>
             (case containersByLabel label of
                None \<Rightarrow>
                  group_loop labelName cs (containersByLabel(label \<mapsto> [] @ [c]), keys @ [label])
              | Some labelContainers \<Rightarrow>
                  group_loop labelName cs (containersByLabel(label \<mapsto> labelContainers @ [c]), keys))))"

definition groupContainerByLabel ::
  "Container list \<Rightarrow> string \<Rightarrow> error + (string \<rightharpoonup> Container list) \<times> string list" where
  "groupContainerByLabel containers labelName =
     (case group_loop labelName containers (Map.empty, []) of
        Inl err \<Rightarrow> Inl err
      | Inr (containersByLabel, keys) \<Rightarrow> Inr (containersByLabel, sort keys))"

text \<open>Reading a Go map of slices at a key: the \<^verbatim>\<open>nil\<close> slice when the key is absent.\<close>

definition containers_at :: "(string \<rightharpoonup> Container list) \<Rightarrow> string \<Rightarrow> Container list" where
  "containers_at m k = (case m k of None \<Rightarrow> [] | Some cs \<Rightarrow> cs)"

definition containersToServiceStatus :: "Constants \<Rightarrow> Container list \<Rightarrow> error + ServiceStatus list" where
  "containersToServiceStatus K containers =
     (case groupContainerByLabel containers (serviceLabel K) of
        Inl err \<Rightarrow> Inl err
      | Inr (containersByLabel, keys) \<Rightarrow>
          Inr (foldl (\<lambda>services service.
                        (let containers' = containers_at containersByLabel service;
                             runnningContainers =
                               foldl (\<lambda>running container.
                                        if c_State container = ''running'' then running @ [container]
                                        else running)
                                 [] containers'
                         in services @ [\<lparr>ss_ID = service, ss_Name = service,
                                          ss_Desired = int (length containers'),
                                          ss_Replicas = int (length runnningContainers)\<rparr>]))
                 [] keys))"

definition containerToState :: "Container list \<Rightarrow> string list" where
  "containerToState containers = foldl (\<lambda>statuses c. statuses @ [c_State c]) [] containers"

definition containersToStacks :: "Constants \<Rightarrow> Container list \<Rightarrow> error + Stack list" where
  "containersToStacks K containers =
     (case groupContainerByLabel containers (projectLabel K) of
        Inl err \<Rightarrow> Inl err
      | Inr (containersByLabel, keys) \<Rightarrow>
          Inr (foldl (\<lambda>projects project.
                        projects @ [\<lparr>st_ID = project, st_Name = project,
                                      st_Status = combinedStatus
                                        (containerToState (containers_at containersByLabel project))\<rparr>])
                 [] keys))"

definition Ps :: "Constants \<Rightarrow> string \<Rightarrow> World \<Rightarrow> (error + ServiceStatus list) \<times> World" where
  "Ps K projectName w =
     (case ContainerList [projectFilter K projectName] w of
        (Inl err, w1) \<Rightarrow> (Inl err, w1)
      | (Inr list, w1) \<Rightarrow> (containersToServiceStatus K list, w1))"

definition List :: "Constants \<Rightarrow> string \<Rightarrow> World \<Rightarrow> (error + Stack list) \<times> World" where
  "List K projectName w =
     (case ContainerList [hasProjectLabelFilter K] w of
        (Inl err, w1) \<Rightarrow> (Inl err, w1)
      | (Inr list, w1) \<Rightarrow> (containersToStacks K list, w1))"

section \<open>Concrete inputs\<close>

text \<open>An engine that holds nothing and fails no request.\<close>

definition empty_world :: World where
  "empty_world =
     \<lparr>w_containers = [], w_networks = [], w_volumes = [], w_fault = (\<lambda>r. None),
      w_calls = [], w_events = [], w_labels = []\<rparr>"

text \<open>
  Stand-ins for the collaborators on concrete inputs: every image exists, a service needs
  no work, the walks visit the services in the order of the list (forwards or backwards)
  and stop at the first error or panic, and the loader finds no file.
\<close>

fun walk ::
  "(ServiceConfig \<Rightarrow> World \<Rightarrow> error option \<times> World) \<Rightarrow> ServiceConfig list \<Rightarrow> World \<Rightarrow> error option \<times> World" where
  "walk f [] w = (None, w)"
| "walk f (s # ss) w = (case f s w of (Some err, w') \<Rightarrow> (Some err, w') | (None, w') \<Rightarrow> walk f ss w')"

fun walk_group ::
  "(ServiceConfig \<Rightarrow> group_state \<Rightarrow> unit result \<times> group_state) \<Rightarrow> ServiceConfig list \<Rightarrow>
   group_state \<Rightarrow> unit result \<times> group_state" where
  "walk_group f [] st = (Ok (), st)"
| "walk_group f (s # ss) st = (case f s st of (Ok u, st') \<Rightarrow> walk_group f ss st' | (r, st') \<Rightarrow> (r, st'))"

definition idle :: Collaborators where
  "idle =
     \<lparr>ensureImagesExists = (\<lambda>p w. (None, w)),
      ensureService = (\<lambda>p s w. (None, w)),
      InDependencyOrder = (\<lambda>p f w. walk f (p_Services p) w),
      InReverseDependencyOrder = (\<lambda>p f st. walk_group f (rev (p_Services p)) st),
      ProjectFromOptions = (\<lambda>options. Inl (Other ''no such file''))\<rparr>"

text \<open>An external volume, and a volume of the project \<open>demo\<close> with its composed labels.\<close>

definition external_volume :: VolumeConfig where
  "external_volume =
     \<lparr>v_Name = ''data'', v_Driver = [], v_DriverOpts = [], v_External = True, v_Labels = None\<rparr>"

definition external_network :: NetworkConfig where
  "external_network =
     \<lparr>n_Name = ''front'', n_Driver = [], n_DriverOpts = [],
      n_Ipam = \<lparr>ipam_Driver = [], ipam_Config = []\<rparr>, n_External = True, n_Internal = False,
      n_Attachable = False, n_Labels = None\<rparr>"

definition demo_volume :: VolumeConfig where
  "demo_volume =
     \<lparr>v_Name = ''demo_data'', v_Driver = [], v_DriverOpts = [], v_External = False,
      v_Labels = Some 0\<rparr>"

definition demo_labels :: labels where
  "demo_labels = [(''volume'', ''data''), (''project'', ''demo''), (''schemaVersion'', ''1'')]"

definition demo_world :: World where
  "demo_world = empty_world\<lparr>w_labels := [(0, demo_labels)]\<rparr>"

text \<open>Two replicas of the service \<open>web\<close> of the project \<open>demo\<close>, started from a stream.\<close>

definition replica :: "string \<Rightarrow> Container" where
  "replica cid =
     labelled_container cid ''running''
       [(''project'', ''demo''), (''service'', ''web''), (''sourceFiles'', ''-'')]"

definition replica_world :: World where
  "replica_world = empty_world\<lparr>w_containers := [replica ''c1'', replica ''c2'']\<rparr>"

text \<open>
  The entries of \<^verbatim>\<open>Ps\<close> and \<^verbatim>\<open>List\<close> as the specification words them: for a value of
  the grouping label, the number of containers that carry it and the number of those that
  are running, or the combined status of those containers.
\<close>

definition service_entry :: "Constants \<Rightarrow> Container list \<Rightarrow> string \<Rightarrow> ServiceStatus" where
  "service_entry K cs v =
     \<lparr>ss_ID = v, ss_Name = v,
      ss_Desired = int (length (filter (\<lambda>c. label_at (c_Labels c) (serviceLabel K) = v) cs)),
      ss_Replicas = int (length (filter (\<lambda>c. c_State c = ''running'')
                          (filter (\<lambda>c. label_at (c_Labels c) (serviceLabel K) = v) cs)))\<rparr>"

definition stack_entry :: "Constants \<Rightarrow> Container list \<Rightarrow> string \<Rightarrow> Stack" where
  "stack_entry K cs v =
     \<lparr>st_ID = v, st_Name = v,
      st_Status = combinedStatus
        (map c_State (filter (\<lambda>c. label_at (c_Labels c) (projectLabel K) = v) cs))\<rparr>"

text \<open>The invariant of the loop of \<^verbatim>\<open>groupContainerByLabel\<close> after the containers \<open>pre\<close>.\<close>

definition grouped ::
  "string \<Rightarrow> Container list \<Rightarrow> (string \<rightharpoonup> Container list) \<times> string list \<Rightarrow> bool" where
  "grouped l pre st =
     (case st of (m, ks) \<Rightarrow>
        set ks = (\<lambda>c. label_at (c_Labels c) l) ` set pre \<and> distinct ks \<and>
        (\<forall>v. m v = (if v \<in> set ks then Some (filter (\<lambda>c. label_at (c_Labels c) l = v) pre)
                     else None)))"

text \<open>A stopped container of the project \<open>demo\<close> that carries no service label.\<close>

definition stray :: Container where
  "stray = labelled_container ''c3'' ''exited'' [(''project'', ''demo'')]"

definition mixed_world :: World where
  "mixed_world = empty_world\<lparr>w_containers := [replica ''c1'', stray, replica ''c2'']\<rparr>"

section \<open>What Up does to the project\<close>

text \<open>The entry of a network or of a volume after the loop of \<^verbatim>\<open>Up\<close> has reached it.\<close>

definition renamed_network :: "string \<Rightarrow> string \<times> NetworkConfig \<Rightarrow> string \<times> NetworkConfig" where
  "renamed_network projectName e =
     (case e of (k, n) \<Rightarrow>
        (k, if \<not> n_External n \<and> n_Name n = k then n\<lparr>n_Name := projectName @ ''_'' @ k\<rparr> else n))"

definition renamed_volume :: "string \<Rightarrow> string \<times> VolumeConfig \<Rightarrow> string \<times> VolumeConfig" where
  "renamed_volume projectName e =
     (case e of (k, v) \<Rightarrow>
        (k, if \<not> v_External v \<and> v_Name v \<noteq> [] then v\<lparr>v_Name := projectName @ ''_'' @ k\<rparr> else v))"

text \<open>The three labels that a round of a loop of \<^verbatim>\<open>Up\<close> writes into a label map.\<close>

definition add_labels :: "Constants \<Rightarrow> string \<Rightarrow> string \<Rightarrow> string \<Rightarrow> labels \<Rightarrow> labels" where
  "add_labels K kindLabel projectName k ls =
     AList.update (versionLabel K) (ComposeVersion K)
       (AList.update (projectLabel K) projectName
          (AList.update kindLabel k ls))"

text \<open>The label map at the address \<open>r\<close> after a round for an entry: written when the
  entry holds this map, and untouched otherwise.\<close>

definition network_labels ::
  "Constants \<Rightarrow> string \<Rightarrow> nat \<Rightarrow> labels \<Rightarrow> string \<times> NetworkConfig \<Rightarrow> labels" where
  "network_labels K projectName r ls e =
     (case e of (k, n) \<Rightarrow>
        if n_Labels n = Some r then add_labels K (networkLabel K) projectName k ls else ls)"

definition volume_labels ::
  "Constants \<Rightarrow> string \<Rightarrow> nat \<Rightarrow> labels \<Rightarrow> string \<times> VolumeConfig \<Rightarrow> labels" where
  "volume_labels K projectName r ls e =
     (case e of (k, v) \<Rightarrow>
        if v_Labels v = Some r then add_labels K (volumeLabel K) projectName k ls else ls)"

text \<open>Collaborators that leave the label maps of the program as they are.\<close>

definition keeps_labels :: "Collaborators \<Rightarrow> bool" where
  "keeps_labels C =
     ((\<forall>p w. w_labels (snd (ensureImagesExists C p w)) = w_labels w)
      \<and> (\<forall>p w. w_labels (snd (InDependencyOrder C p (ensureService C p) w)) = w_labels w))"

text \<open>A project with the one network \<open>default\<close>, which carries a label of its own.\<close>

definition default_network :: NetworkConfig where
  "default_network =
     \<lparr>n_Name = ''default'', n_Driver = [], n_DriverOpts = [],
      n_Ipam = \<lparr>ipam_Driver = [], ipam_Config = []\<rparr>, n_External = False, n_Internal = False,
      n_Attachable = False, n_Labels = Some 0\<rparr>"

definition network_project :: Project where
  "network_project =
     \<lparr>p_Name = ''demo'', p_WorkingDir = ''/srv/demo'', p_Services = [],
      p_Networks = [(''default'', default_network)], p_Volumes = [],
      p_ComposeFiles = [''compose.yaml'']\<rparr>"

definition network_world :: World where
  "network_world = empty_world\<lparr>w_labels := [(0, [(''tier'', ''front'')])]\<rparr>"

section \<open>Properties of the status summary\<close>

lemma count_status_inv:
  "foldl count_status (Map.empty, []) xs = (m, ks) \<Longrightarrow>
     set ks = set xs \<and> distinct ks \<and>
     (\<forall>s. m s = (if s \<in> set xs then Some (int (count_list xs s)) else None))"
proof (induction xs arbitrary: m ks rule: rev_induct)
  case Nil
  then show ?case by auto
next
  case (snoc x xs)
  obtain m0 ks0 where st: "foldl count_status (Map.empty, []) xs = (m0, ks0)"
    by (cases "foldl count_status (Map.empty, []) xs")
  from snoc.IH [OF st] have ks: "set ks0 = set xs" and d: "distinct ks0"
    and m0: "\<And>s. m0 s = (if s \<in> set xs then Some (int (count_list xs s)) else None)"
    by simp_all
  from snoc.prems st have step: "count_status (m0, ks0) x = (m, ks)"
    by simp
  show ?case
  proof (cases "x \<in> set xs")
    case True
    with step m0 [of x] have "m = m0(x \<mapsto> int (count_list xs x) + 1)" and "ks = ks0"
      by (auto simp: count_status_def)
    with True ks d m0 show ?thesis
      by auto
  next
    case False
    with step m0 [of x] have "m = m0(x \<mapsto> 0 + 1)" and "ks = ks0 @ [x]"
      by (auto simp: count_status_def)
    with False ks d m0 show ?thesis
      by auto
  qed
qed

lemma render_status_nonempty: "render_status m r s \<noteq> []"
  by (simp add: render_status_def)

lemma render_loop_nonempty:
  "r \<noteq> [] \<Longrightarrow>
   foldl (render_status m) r ks =
     r @ concat (map (\<lambda>s. '', '' @ s @ ''('' @ strconv_Itoa (int_at m s) @ '')'') ks)"
  by (induction ks arbitrary: r) (simp_all add: render_status_def)

lemma strings_Join_concat:
  "strings_Join (map f (k # ks)) sep = f k @ concat (map (\<lambda>s. sep @ f s) ks)"
  by (induction ks arbitrary: k) simp_all

lemma render_loop_join:
  "foldl (render_status m) [] ks =
     strings_Join (map (\<lambda>s. s @ ''('' @ strconv_Itoa (int_at m s) @ '')'') ks) '', ''"
proof (cases ks)
  case Nil
  then show ?thesis by simp
next
  case (Cons k ks')
  have first: "render_status m [] k = k @ ''('' @ strconv_Itoa (int_at m k) @ '')''"
    by (simp add: render_status_def)
  have "foldl (render_status m) [] ks = foldl (render_status m) (render_status m [] k) ks'"
    using Cons by simp
  also have "\<dots> = render_status m [] k
      @ concat (map (\<lambda>s. '', '' @ s @ ''('' @ strconv_Itoa (int_at m s) @ '')'') ks')"
    by (rule render_loop_nonempty) (rule render_status_nonempty)
  finally show ?thesis
    unfolding Cons first
    by (simp only: strings_Join_concat [where f = "\<lambda>s. s @ ''('' @ strconv_Itoa (int_at m s) @ '')''"] append_assoc)
qed

lemma combinedStatus_refines: "combinedStatus statuses = status_summary statuses"
proof -
  obtain m ks where st: "foldl count_status (Map.empty, []) statuses = (m, ks)"
    by (cases "foldl count_status (Map.empty, []) statuses")
  from count_status_inv [OF st] have ks: "set ks = set statuses" and d: "distinct ks"
    and m: "\<And>s. m s = (if s \<in> set statuses then Some (int (count_list statuses s)) else None)"
    by simp_all
  have srt: "sort ks = sort (remdups statuses)"
    by (rule sorted_distinct_set_unique) (simp_all add: ks d)
  have pieces: "map (\<lambda>s. s @ ''('' @ strconv_Itoa (int_at m s) @ '')'') (sort (remdups statuses))
      = map (\<lambda>s. s @ ''('' @ strconv_Itoa (int (count_list statuses s)) @ '')'') (sort (remdups statuses))"
    by (rule map_cong) (simp_all add: int_at_def m)
  have "combinedStatus statuses = foldl (render_status m) [] (sort ks)"
    by (simp add: combinedStatus_def st)
  also have "\<dots> = strings_Join
      (map (\<lambda>s. s @ ''('' @ strconv_Itoa (int_at m s) @ '')'') (sort (remdups statuses))) '', ''"
    unfolding srt by (rule render_loop_join)
  also have "\<dots> = status_summary statuses"
    unfolding pieces status_summary_def ..
  finally show ?thesis .
qed

lemma combinedStatus_example:
  "combinedStatus [''running'', ''running'', ''exited'', ''running''] = ''exited(1), running(3)''"
  unfolding combinedStatus_refines status_summary_def by code_simp

text \<open>
  C7. \<^verbatim>\<open>combinedStatus\<close> returns, for any list of container states, the summary of the
  list: its distinct states in alphabetical order, each with its count as \<open>state(count)\<close>,
  joined by \<open>, \<close>. For running, running, exited, running it is \<open>exited(1), running(3)\<close>.
\<close>

theorem combinedStatus_summary:
  "combinedStatus statuses = status_summary statuses
   \<and> combinedStatus [''running'', ''running'', ''exited'', ''running''] = ''exited(1), running(3)''"
  using combinedStatus_refines combinedStatus_example by simp

section \<open>Properties of the mount list\<close>

lemma inherit_loop:
  "foldl inherit_step (mounts, inherited) ms =
     (mounts @ map inherited_mount (filter (\<lambda>m. mp_Type m \<noteq> ''tmpfs'') ms),
      inherited @ map mp_Destination (filter (\<lambda>m. mp_Type m \<noteq> ''tmpfs'') ms))"
  by (induction ms arbitrary: mounts inherited) (simp_all add: inherit_step_def)

lemma declare_loop:
  "foldl (declare_step p inherited) mounts vs =
     mounts @ map (declared_mount p) (filter (\<lambda>v. sv_Target v \<notin> set inherited) vs)"
  by (induction vs arbitrary: mounts) (simp_all add: declare_step_def contains_def)

lemma buildContainerMountOptions_eq:
  "buildContainerMountOptions p s inherit =
     map inherited_mount (kept_mounts inherit)
     @ map (declared_mount p)
         (filter (\<lambda>v. sv_Target v \<notin> set (map mp_Destination (kept_mounts inherit)))
            (s_Volumes s))"
proof (cases inherit)
  case None
  then show ?thesis
    by (simp add: buildContainerMountOptions_def kept_mounts_def declare_loop)
next
  case (Some c)
  have "foldl inherit_step ([], []) (c_Mounts c) =
      (map inherited_mount (kept_mounts inherit), map mp_Destination (kept_mounts inherit))"
    using Some by (simp add: inherit_loop kept_mounts_def)
  then show ?thesis
    using Some by (simp add: buildContainerMountOptions_def declare_loop)
qed

lemma buildContainerMountOptions_example:
  "buildContainerMountOptions (example_project [])
       (example_service [example_volume ''volume'' ''V'' ''/data'',
                         example_volume ''bind'' ''./cache'' ''/cache''])
       (Some example_prior) =
     [\<lparr>m_Type = ''volume'', m_Source = ''V'', m_Target = ''/data'', m_ReadOnly = False,
       m_Consistency = [], m_BindOptions = None, m_VolumeOptions = None, m_TmpfsOptions = None\<rparr>,
      \<lparr>m_Type = ''bind'', m_Source = ''/srv/demo/cache'', m_Target = ''/cache'', m_ReadOnly = False,
       m_Consistency = [], m_BindOptions = None, m_VolumeOptions = None, m_TmpfsOptions = None\<rparr>]"
  by code_simp

text \<open>
  C1, as the code has it. The rebuilt mount list is every mount of the prior container
  that is not a \<open>tmpfs\<close> mount, inherited with its source (the volume name for a volume)
  whether or not the new definition declares its target, followed by every mount of the new
  definition whose target was not inherited. A \<open>tmpfs\<close> mount of the prior container is never
  inherited. In the example of the specification the result is \<open>/data\<close> from \<open>V\<close> and
  \<open>/cache\<close>, without \<open>/tmp\<close>.
\<close>

theorem buildContainerMountOptions_inherits:
  "buildContainerMountOptions p s inherit =
     map inherited_mount (kept_mounts inherit)
     @ map (declared_mount p)
         (filter (\<lambda>v. sv_Target v \<notin> set (map mp_Destination (kept_mounts inherit)))
            (s_Volumes s))
   \<and> m_Source (inherited_mount m) = (if mp_Type m = ''volume'' then mp_Name m else mp_Source m)
   \<and> m_Target (inherited_mount m) = mp_Destination m
   \<and> buildContainerMountOptions (example_project [])
       (example_service [example_volume ''volume'' ''V'' ''/data'',
                         example_volume ''bind'' ''./cache'' ''/cache''])
       (Some example_prior) =
     [\<lparr>m_Type = ''volume'', m_Source = ''V'', m_Target = ''/data'', m_ReadOnly = False,
       m_Consistency = [], m_BindOptions = None, m_VolumeOptions = None, m_TmpfsOptions = None\<rparr>,
      \<lparr>m_Type = ''bind'', m_Source = ''/srv/demo/cache'', m_Target = ''/cache'', m_ReadOnly = False,
       m_Consistency = [], m_BindOptions = None, m_VolumeOptions = None, m_TmpfsOptions = None\<rparr>]"
  using buildContainerMountOptions_eq [of p s inherit] buildContainerMountOptions_example
  by (simp add: inherited_mount_def)

text \<open>
  The claim as stated fails: a mount of the prior container that the new definition does
  not declare is kept. Here the new definition declares no mount at all, and the volume at
  \<open>/data\<close> of the prior container is in the result.
\<close>

theorem old_only_mount_is_kept:
  "buildContainerMountOptions (example_project []) (example_service []) (Some example_prior) =
     [\<lparr>m_Type = ''volume'', m_Source = ''V'', m_Target = ''/data'', m_ReadOnly = False,
       m_Consistency = [], m_BindOptions = None, m_VolumeOptions = None, m_TmpfsOptions = None\<rparr>]"
  by code_simp

section \<open>Properties of the label codec\<close>

lemma split_byte_no_sep: "sep \<notin> set x \<Longrightarrow> split_byte sep x = [x]"
  by (induction x) auto

lemma split_byte_append:
  "sep \<notin> set x \<Longrightarrow> split_byte sep (x @ sep # rest) = x # split_byte sep rest"
  by (induction x) auto

lemma split_join:
  "fs \<noteq> [] \<Longrightarrow> \<forall>f\<in>set fs. sep \<notin> set f \<Longrightarrow> split_byte sep (strings_Join fs [sep]) = fs"
  by (induction fs "[sep]" rule: strings_Join.induct)
    (simp_all add: split_byte_no_sep split_byte_append)

lemma filepath_Base_plain:
  assumes ne: "f \<noteq> []" and ns: "CHR ''/'' \<notin> set f"
  shows "filepath_Base f = f"
proof -
  have d: "dropWhile (\<lambda>c. c = CHR ''/'') (rev f) = rev f"
    using ne ns by (cases "rev f") auto
  have t: "takeWhile (\<lambda>c. c \<noteq> CHR ''/'') (rev f) = rev f"
    using ns by auto
  show ?thesis using ne by (simp add: filepath_Base_def d t)
qed

lemma base_loop:
  "foldl (\<lambda>configFiles f. configFiles @ [filepath_Base f]) acc fs = acc @ map filepath_Base fs"
  by (induction fs arbitrary: acc) simp_all

lemma label_lookup:
  assumes "distinct (container_keys K)"
  shows "label_at (container_labels K p s hash number) (projectLabel K) = p_Name p"
    and "label_at (container_labels K p s hash number) (workingDirLabel K) = p_WorkingDir p"
    and "label_at (container_labels K p s hash number) (configFilesLabel K)
          = strings_Join (p_ComposeFiles p) '',''"
  using assms by (auto simp: label_at_def container_labels_def container_keys_def)

lemma create_labels:
  "getContainerCreateOptions K jsonHash p s number inherit = Ok (cfg, host, net) \<Longrightarrow>
   \<exists>hash. jsonHash s = Inr hash \<and> cc_Labels cfg = container_labels K p s hash number"
  by (auto simp: getContainerCreateOptions_def Let_def split: sum.splits result.splits)

lemma load_options:
  "loadProjectOptionsFromLabels K c =
     Inr \<lparr>po_Name = label_at (c_Labels c) (projectLabel K),
          po_WorkingDir = label_at (c_Labels c) (workingDirLabel K),
          po_ConfigPaths =
            map filepath_Base (split_byte CHR '','' (label_at (c_Labels c) (configFilesLabel K)))\<rparr>"
  by (simp add: loadProjectOptionsFromLabels_def NewProjectOptions_def WithOsEnv_def
      WithWorkingDirectory_def WithName_def base_loop)

text \<open>
  C2, as the code has it. When the options of a container are computed for a project, a
  container that carries the resulting labels decodes to project options with the name and
  the working directory of the project. The source files come back as the base names of the
  comma-separated pieces of the joined list; this is the list of the project when that list
  is not empty and its entries are non-empty names without a comma and without a slash.
\<close>

theorem labels_roundtrip:
  assumes "distinct (container_keys K)"
    and "getContainerCreateOptions K jsonHash p s number inherit = Ok (cfg, host, net)"
    and "c_Labels c = cc_Labels cfg"
  shows "\<exists>options. loadProjectOptionsFromLabels K c = Inr options
      \<and> po_Name options = p_Name p
      \<and> po_WorkingDir options = p_WorkingDir p
      \<and> po_ConfigPaths options =
          map filepath_Base (split_byte CHR '','' (strings_Join (p_ComposeFiles p) '',''))
      \<and> (p_ComposeFiles p \<noteq> []
           \<and> (\<forall>f \<in> set (p_ComposeFiles p). f \<noteq> [] \<and> CHR '','' \<notin> set f \<and> CHR ''/'' \<notin> set f)
          \<longrightarrow> po_ConfigPaths options = p_ComposeFiles p)"
proof -
  from create_labels [OF assms(2)] obtain hash
    where ls: "cc_Labels cfg = container_labels K p s hash number" by blast
  have "map filepath_Base (split_byte CHR '','' (strings_Join (p_ComposeFiles p) '',''))
      = p_ComposeFiles p"
    if "p_ComposeFiles p \<noteq> []"
      and "\<forall>f \<in> set (p_ComposeFiles p). f \<noteq> [] \<and> CHR '','' \<notin> set f \<and> CHR ''/'' \<notin> set f"
  proof -
    have "split_byte CHR '','' (strings_Join (p_ComposeFiles p) '','') = p_ComposeFiles p"
      using that by (intro split_join) auto
    moreover have "map filepath_Base (p_ComposeFiles p) = p_ComposeFiles p"
      using that by (simp add: map_idI filepath_Base_plain)
    ultimately show ?thesis by simp
  qed
  then show ?thesis
    by (simp add: load_options assms(3) ls label_lookup [OF assms(1)])
qed

theorem labels_roundtrip_witness:
  "distinct (container_keys spec_constants)
   \<and> getContainerCreateOptions spec_constants example_hash plain_project (example_service []) 1 None
       = Ok (plain_config, plain_host, [(''none'', [''web''])])
   \<and> c_Labels (labelled_container ''c1'' ''running'' (cc_Labels plain_config)) = cc_Labels plain_config
   \<and> (\<exists>options.
        loadProjectOptionsFromLabels spec_constants
          (labelled_container ''c1'' ''running'' (cc_Labels plain_config)) = Inr options
        \<and> po_Name options = ''demo''
        \<and> po_WorkingDir options = ''/srv/demo''
        \<and> po_ConfigPaths options = [''compose.yaml'', ''compose.override.yaml''])"
proof -
  have h1: "distinct (container_keys spec_constants)"
    by (simp add: container_keys_def spec_constants_def)
  have h2: "getContainerCreateOptions spec_constants example_hash plain_project
      (example_service []) 1 None = Ok (plain_config, plain_host, [(''none'', [''web''])])"
    by code_simp
  have h3: "c_Labels (labelled_container ''c1'' ''running'' (cc_Labels plain_config))
      = cc_Labels plain_config"
    by (simp add: labelled_container_def)
  have files: "p_ComposeFiles plain_project = [''compose.yaml'', ''compose.override.yaml'']"
    and name: "p_Name plain_project = ''demo''"
    and wd: "p_WorkingDir plain_project = ''/srv/demo''"
    by (simp_all add: plain_project_def)
  from labels_roundtrip [OF h1 h2 h3] obtain options where
    "loadProjectOptionsFromLabels spec_constants
       (labelled_container ''c1'' ''running'' (cc_Labels plain_config)) = Inr options"
    "po_Name options = p_Name plain_project"
    "po_WorkingDir options = p_WorkingDir plain_project"
    "p_ComposeFiles plain_project \<noteq> []
       \<and> (\<forall>f \<in> set (p_ComposeFiles plain_project).
             f \<noteq> [] \<and> CHR '','' \<notin> set f \<and> CHR ''/'' \<notin> set f)
      \<longrightarrow> po_ConfigPaths options = p_ComposeFiles plain_project"
    by blast
  then have "loadProjectOptionsFromLabels spec_constants
       (labelled_container ''c1'' ''running'' (cc_Labels plain_config)) = Inr options
     \<and> po_Name options = ''demo'' \<and> po_WorkingDir options = ''/srv/demo''
     \<and> po_ConfigPaths options = [''compose.yaml'', ''compose.override.yaml'']"
    by (simp add: files name wd)
  then show ?thesis
    using h1 h2 h3 by blast
qed

text \<open>
  The claim as stated fails: a source file given with its directory comes back as its base
  name only.
\<close>

theorem roundtrip_keeps_base_names_only:
  "p_ComposeFiles (example_project []) = [''/srv/demo/compose.yaml'']
   \<and> decoded_options spec_constants example_hash (example_project []) (example_service []) 1 None
       = Ok (Inr \<lparr>po_Name = ''demo'', po_WorkingDir = ''/srv/demo'',
                  po_ConfigPaths = [''compose.yaml'']\<rparr>)"
  by code_simp

section \<open>Properties of the network mode\<close>

lemma network_mode_panics:
  assumes "strings_HasPrefix (s_NetworkMode s) ''service:''
         \<or> strings_HasPrefix (s_NetworkMode s) ''container:''"
  shows "getNetworkMode p s = Panic ''Not yet implemented''"
proof -
  have "s_NetworkMode s \<noteq> []"
    using assms by (auto simp: strings_HasPrefix_def)
  then show ?thesis
    using assms by (auto simp: getNetworkMode_def Let_def)
qed

text \<open>
  C9. For a service whose network mode begins with \<open>service:\<close> or \<open>container:\<close>,
  \<^verbatim>\<open>getNetworkMode\<close> panics with \<open>Not yet implemented\<close>. Computing the options of a
  container for such a service never returns a value, and once the fingerprint of the
  service is computed it panics with the same message, returning no error either.
\<close>

theorem unimplemented_network_modes_panic:
  assumes "strings_HasPrefix (s_NetworkMode s) ''service:''
         \<or> strings_HasPrefix (s_NetworkMode s) ''container:''"
  shows "getNetworkMode p s = Panic ''Not yet implemented''
     \<and> (\<forall>v. getContainerCreateOptions K jsonHash p s number inherit \<noteq> Ok v)
     \<and> (\<forall>hash. jsonHash s = Inr hash \<longrightarrow>
          getContainerCreateOptions K jsonHash p s number inherit = Panic ''Not yet implemented'')"
  using network_mode_panics [OF assms, of p]
  by (auto simp: getContainerCreateOptions_def Let_def split: sum.splits)

theorem unimplemented_network_modes_panic_witness:
  "(strings_HasPrefix (s_NetworkMode ((example_service [])\<lparr>s_NetworkMode := ''service:db''\<rparr>)) ''service:''
      \<or> strings_HasPrefix (s_NetworkMode ((example_service [])\<lparr>s_NetworkMode := ''service:db''\<rparr>)) ''container:'')
   \<and> example_hash ((example_service [])\<lparr>s_NetworkMode := ''service:db''\<rparr>) = Inr ''sha256:web''
   \<and> getNetworkMode plain_project ((example_service [])\<lparr>s_NetworkMode := ''service:db''\<rparr>)
       = Panic ''Not yet implemented''
   \<and> getContainerCreateOptions spec_constants example_hash plain_project
        ((example_service [])\<lparr>s_NetworkMode := ''service:db''\<rparr>) 1 None
       = Panic ''Not yet implemented''"
proof -
  have h: "strings_HasPrefix (s_NetworkMode ((example_service [])\<lparr>s_NetworkMode := ''service:db''\<rparr>)) ''service:''
      \<or> strings_HasPrefix (s_NetworkMode ((example_service [])\<lparr>s_NetworkMode := ''service:db''\<rparr>)) ''container:''"
    by (simp add: strings_HasPrefix_def)
  have hash: "example_hash ((example_service [])\<lparr>s_NetworkMode := ''service:db''\<rparr>) = Inr ''sha256:web''"
    by (simp add: example_hash_def example_service_def)
  from unimplemented_network_modes_panic [OF h, of plain_project spec_constants example_hash 1 None]
  show ?thesis
    using h hash by blast
qed

section \<open>Properties of ensuring networks and volumes\<close>

lemma labels_of_frame [simp]:
  "labels_of (record_call r w) l = labels_of w l"
  "labels_of (Event_write e w) l = labels_of w l"
  by (simp_all add: labels_of_def record_call_def Event_write_def split: option.splits)

lemma fault_frame [simp]:
  "w_fault (record_call r w) = w_fault w"
  "w_fault (Event_write e w) = w_fault w"
  by (simp_all add: record_call_def Event_write_def)

lemma volumes_frame [simp]:
  "w_volumes (record_call r w) = w_volumes w"
  "w_volumes (Event_write e w) = w_volumes w"
  by (simp_all add: record_call_def Event_write_def)

lemma VolumeInspect_absent:
  "w_fault w (VolumeInspectCall name) = None \<Longrightarrow> name \<notin> set (map vc_Name (w_volumes w)) \<Longrightarrow>
   VolumeInspect name w = (Some (NotFound name), record_call (VolumeInspectCall name) w)"
  by (simp add: VolumeInspect_def Let_def)

lemma VolumeCreate_ok:
  "w_fault w (VolumeCreateCall body) = None \<Longrightarrow>
   VolumeCreate body w =
     (None, (record_call (VolumeCreateCall body) w)\<lparr>w_volumes := w_volumes w @ [body]\<rparr>)"
  by (simp add: VolumeCreate_def Let_def)

text \<open>
  An external network that the engine does not know is reported as missing, and the only
  request issued is the inspection.
\<close>

lemma ensureNetwork_external_absent:
  assumes "n_External n" and "w_fault w (NetworkInspectCall (n_Name n)) = None"
    and "\<not> network_known w (n_Name n)"
  shows "ensureNetwork n w =
     (Some (Errorf (''network '' @ n_Name n @ '' declared as external, but could not be found'')),
      record_call (NetworkInspectCall (n_Name n)) w)"
  using assms by (simp add: ensureNetwork_def NetworkInspect_def Let_def)

text \<open>
  A volume that the engine does not know is created, external or not, with the labels it
  carries, between a Creating and a Created event; the call then returns the not-found error
  of the inspection.
\<close>

lemma ensureVolume_absent:
  assumes "w_fault w (VolumeInspectCall (v_Name v)) = None"
    and "v_Name v \<notin> set (map vc_Name (w_volumes w))"
    and "body = \<lparr>vc_Labels = labels_of w (v_Labels v), vc_Name = v_Name v,
                 vc_Driver = v_Driver v, vc_DriverOpts = v_DriverOpts v\<rparr>"
    and "w_fault w (VolumeCreateCall body) = None"
  shows "ensureVolume v w =
     (Some (NotFound (v_Name v)),
      Event_write (CreatedEvent (Volume (v_Name v)))
        ((record_call (VolumeCreateCall body)
           (Event_write (CreatingEvent (Volume (v_Name v)))
             (record_call (VolumeInspectCall (v_Name v)) w)))
         \<lparr>w_volumes := w_volumes w @ [body]\<rparr>))"
proof -
  have create: "VolumeCreate body (Event_write (CreatingEvent (Volume (v_Name v)))
             (record_call (VolumeInspectCall (v_Name v)) w)) =
      (None, (record_call (VolumeCreateCall body) (Event_write (CreatingEvent (Volume (v_Name v)))
             (record_call (VolumeInspectCall (v_Name v)) w)))\<lparr>w_volumes := w_volumes w @ [body]\<rparr>)"
    using assms(4) by (simp add: VolumeCreate_ok)
  show ?thesis
    unfolding ensureVolume_def VolumeInspect_absent [OF assms(1,2)]
    using create by (simp add: Let_def assms(3))
qed

text \<open>
  C3. Ensuring an external network that is absent fails with the error that names it as
  external and not found, and issues no create call (\<open>ensureNetwork_external_absent\<close>).
  Ensuring an external volume that is absent does not: \<^verbatim>\<open>ensureVolume\<close> never reads the
  External flag, so when the engine answers the requests it issues the create call after
  the inspection, and the engine holds the volume afterwards.
\<close>

theorem external_volume_is_created:
  assumes "v_External v"
    and "w_fault w (VolumeInspectCall (v_Name v)) = None"
    and "v_Name v \<notin> set (map vc_Name (w_volumes w))"
    and "w_fault w (VolumeCreateCall
           \<lparr>vc_Labels = labels_of w (v_Labels v), vc_Name = v_Name v,
            vc_Driver = v_Driver v, vc_DriverOpts = v_DriverOpts v\<rparr>) = None"
  shows "w_calls (snd (ensureVolume v w)) =
       w_calls w @ [VolumeInspectCall (v_Name v),
                    VolumeCreateCall
                      \<lparr>vc_Labels = labels_of w (v_Labels v), vc_Name = v_Name v,
                       vc_Driver = v_Driver v, vc_DriverOpts = v_DriverOpts v\<rparr>]
     \<and> w_volumes (snd (ensureVolume v w)) =
       w_volumes w @ [\<lparr>vc_Labels = labels_of w (v_Labels v), vc_Name = v_Name v,
                       vc_Driver = v_Driver v, vc_DriverOpts = v_DriverOpts v\<rparr>]
     \<and> fst (ensureVolume v w) = Some (NotFound (v_Name v))"
  using ensureVolume_absent [OF assms(2) assms(3) refl assms(4)]
  by (simp add: record_call_def Event_write_def)

theorem external_volume_is_created_witness:
  "fst (ensureNetwork external_network empty_world)
       = Some (Errorf ''network front declared as external, but could not be found'')
   \<and> w_calls (snd (ensureNetwork external_network empty_world)) = [NetworkInspectCall ''front'']
   \<and> v_External external_volume
   \<and> w_volumes empty_world = []
   \<and> w_calls (snd (ensureVolume external_volume empty_world))
       = [VolumeInspectCall ''data'',
          VolumeCreateCall \<lparr>vc_Labels = [], vc_Name = ''data'', vc_Driver = [], vc_DriverOpts = []\<rparr>]
   \<and> w_volumes (snd (ensureVolume external_volume empty_world))
       = [\<lparr>vc_Labels = [], vc_Name = ''data'', vc_Driver = [], vc_DriverOpts = []\<rparr>]
   \<and> fst (ensureVolume external_volume empty_world) = Some (NotFound ''data'')"
proof -
  have net: "fst (ensureNetwork external_network empty_world)
       = Some (Errorf ''network front declared as external, but could not be found'')
     \<and> w_calls (snd (ensureNetwork external_network empty_world)) = [NetworkInspectCall ''front'']"
    by code_simp
  have h1: "v_External external_volume"
    by (simp add: external_volume_def)
  have h2: "w_fault empty_world (VolumeInspectCall (v_Name external_volume)) = None"
    by (simp add: empty_world_def)
  have h3: "v_Name external_volume \<notin> set (map vc_Name (w_volumes empty_world))"
    and none: "w_volumes empty_world = []"
    by (simp_all add: empty_world_def)
  have h4: "w_fault empty_world (VolumeCreateCall
           \<lparr>vc_Labels = labels_of empty_world (v_Labels external_volume),
            vc_Name = v_Name external_volume, vc_Driver = v_Driver external_volume,
            vc_DriverOpts = v_DriverOpts external_volume\<rparr>) = None"
    by (simp add: empty_world_def)
  have fields: "labels_of empty_world (v_Labels external_volume) = []"
    "v_Name external_volume = ''data''" "v_Driver external_volume = []"
    "v_DriverOpts external_volume = []" "w_calls empty_world = []"
    by (simp_all add: labels_of_def external_volume_def empty_world_def)
  from external_volume_is_created [OF h1 h2 h3 h4] show ?thesis
    using net h1 none by (simp add: fields)
qed

text \<open>
  C4. Ensuring a volume that is absent and not external creates it with its labels and
  writes the Creating and Created events, and the create call succeeds; yet the call
  returns an error, the not-found error of the inspection.
\<close>

theorem created_volume_reports_not_found:
  "\<not> v_External demo_volume
   \<and> w_volumes demo_world = []
   \<and> labels_of demo_world (v_Labels demo_volume) = demo_labels
   \<and> w_calls (snd (ensureVolume demo_volume demo_world))
       = [VolumeInspectCall ''demo_data'',
          VolumeCreateCall \<lparr>vc_Labels = demo_labels, vc_Name = ''demo_data'', vc_Driver = [],
                            vc_DriverOpts = []\<rparr>]
   \<and> w_events (snd (ensureVolume demo_volume demo_world))
       = [CreatingEvent (Volume ''demo_data''), CreatedEvent (Volume ''demo_data'')]
   \<and> w_volumes (snd (ensureVolume demo_volume demo_world))
       = [\<lparr>vc_Labels = demo_labels, vc_Name = ''demo_data'', vc_Driver = [], vc_DriverOpts = []\<rparr>]
   \<and> fst (ensureVolume demo_volume demo_world) = Some (NotFound ''demo_data'')"
  by code_simp

section \<open>Properties of Down and of the rebuilt project\<close>

text \<open>
  C8. When the engine lists no container with the project label equal to the requested
  name, \<^verbatim>\<open>Down\<close> returns \<^verbatim>\<open>nil\<close>; the listing is the only request it has issued, and
  nothing else of the state has changed: no stop, no removal, no event.
\<close>

theorem Down_of_unknown_project:
  assumes "ContainerList [projectFilter K projectName] w = (Inr [], w1)"
  shows "Down K C projectName w = (Ok (), w1)
     \<and> w1 = w\<lparr>w_calls := w_calls w @ [ContainerListCall [projectFilter K projectName]]\<rparr>"
proof -
  have "w1 = w\<lparr>w_calls := w_calls w @ [ContainerListCall [projectFilter K projectName]]\<rparr>"
    using assms by (auto simp: ContainerList_def record_call_def split: option.splits)
  moreover have "Down K C projectName w = (Ok (), w1)"
    using assms by (simp add: Down_def projectFromContainerLabels_def)
  ultimately show ?thesis by simp
qed

theorem Down_of_unknown_project_witness:
  "ContainerList [projectFilter spec_constants ''other''] replica_world
     = (Inr [], replica_world\<lparr>w_calls := [ContainerListCall [LabelIs ''project'' ''other'']]\<rparr>)
   \<and> Down spec_constants idle ''other'' replica_world
     = (Ok (), replica_world\<lparr>w_calls := [ContainerListCall [LabelIs ''project'' ''other'']]\<rparr>)"
proof -
  have h: "ContainerList [projectFilter spec_constants ''other''] replica_world
     = (Inr [], replica_world\<lparr>w_calls := [ContainerListCall [LabelIs ''project'' ''other'']]\<rparr>)"
    by (simp add: ContainerList_def record_call_def replica_world_def empty_world_def replica_def
        labelled_container_def projectFilter_def spec_constants_def)
  from Down_of_unknown_project [OF h, of idle] show ?thesis
    using h by simp
qed

lemma fake_loop:
  "foldl (\<lambda>fakeProject container.
            fakeProject\<lparr>p_Services := p_Services fakeProject
              @ [zero_ServiceConfig\<lparr>s_Name := label_at (c_Labels container) (serviceLabel K)\<rparr>]\<rparr>)
      p cs =
   p\<lparr>p_Services := p_Services p
       @ map (\<lambda>c. zero_ServiceConfig\<lparr>s_Name := label_at (c_Labels c) (serviceLabel K)\<rparr>) cs\<rparr>"
  by (induction cs arbitrary: p) simp_all

text \<open>
  C6. When the first configuration path recovered from the first listed container is \<open>-\<close>,
  the rebuilt project holds the project name and nothing else but its services. The loop
  appends one entry for every listed container, named by the service label of that
  container, and not one entry for every distinct service label: a service with several
  replica containers has as many entries. For two replicas of the service \<open>web\<close> the
  services of the minimal project are \<open>web\<close> and \<open>web\<close>.
\<close>

theorem minimal_project_per_container:
  assumes "ContainerList [projectFilter K projectName] w = (Inr (c0 # cs), w1)"
    and "loadProjectOptionsFromLabels K c0 = Inr options"
    and "po_ConfigPaths options = ''-'' # paths"
  shows "projectFromContainerLabels K C projectName w =
     (Ok (Some \<lparr>p_Name = projectName, p_WorkingDir = [],
                p_Services =
                  map (\<lambda>c. zero_ServiceConfig\<lparr>s_Name := label_at (c_Labels c) (serviceLabel K)\<rparr>)
                    (c0 # cs),
                p_Networks = [], p_Volumes = [], p_ComposeFiles = []\<rparr>), w1)"
  using assms
  by (simp add: projectFromContainerLabels_def fake_loop zero_Project_def)

theorem minimal_project_per_container_witness:
  "ContainerList [projectFilter spec_constants ''demo''] replica_world
     = (Inr [replica ''c1'', replica ''c2''],
        replica_world\<lparr>w_calls := [ContainerListCall [LabelIs ''project'' ''demo'']]\<rparr>)
   \<and> loadProjectOptionsFromLabels spec_constants (replica ''c1'')
     = Inr \<lparr>po_Name = ''demo'', po_WorkingDir = [], po_ConfigPaths = [''-'']\<rparr>
   \<and> map (\<lambda>c. label_at (c_Labels c) (serviceLabel spec_constants)) [replica ''c1'', replica ''c2'']
     = [''web'', ''web'']
   \<and> projectFromContainerLabels spec_constants idle ''demo'' replica_world
     = (Ok (Some \<lparr>p_Name = ''demo'', p_WorkingDir = [],
                  p_Services = [zero_ServiceConfig\<lparr>s_Name := ''web''\<rparr>,
                                zero_ServiceConfig\<lparr>s_Name := ''web''\<rparr>],
                  p_Networks = [], p_Volumes = [], p_ComposeFiles = []\<rparr>),
        replica_world\<lparr>w_calls := [ContainerListCall [LabelIs ''project'' ''demo'']]\<rparr>)"
proof -
  have h1: "ContainerList [projectFilter spec_constants ''demo''] replica_world
     = (Inr [replica ''c1'', replica ''c2''],
        replica_world\<lparr>w_calls := [ContainerListCall [LabelIs ''project'' ''demo'']]\<rparr>)"
    by (simp add: ContainerList_def record_call_def replica_world_def empty_world_def replica_def
        labelled_container_def projectFilter_def spec_constants_def)
  have h2: "loadProjectOptionsFromLabels spec_constants (replica ''c1'')
     = Inr \<lparr>po_Name = ''demo'', po_WorkingDir = [], po_ConfigPaths = [''-'']\<rparr>"
    by code_simp
  have h3: "po_ConfigPaths \<lparr>po_Name = ''demo'', po_WorkingDir = [], po_ConfigPaths = [''-'']\<rparr>
     = ''-'' # []"
    by simp
  have names: "label_at (c_Labels (replica ''c1'')) (serviceLabel spec_constants) = ''web''"
    "label_at (c_Labels (replica ''c2'')) (serviceLabel spec_constants) = ''web''"
    by code_simp+
  from minimal_project_per_container [OF h1 h2 h3, of idle] show ?thesis
    using h1 h2 by (simp add: names)
qed

text \<open>
  What the duplicate entries do to \<^verbatim>\<open>Down\<close>: with a walk that visits the services of
  the minimal project one after the other, the containers of \<open>web\<close> are listed, stopped and
  removed for the first entry, and listed once more for the second.
\<close>

lemma Down_lists_replicated_service_twice:
  "w_calls (snd (Down spec_constants idle ''demo'' replica_world)) =
     [ContainerListCall [LabelIs ''project'' ''demo''],
      ContainerListCall [LabelIs ''project'' ''demo'', LabelIs ''service'' ''web''],
      ContainerStopCall ''c1'', ContainerRemoveCall ''c1'',
      ContainerStopCall ''c2'', ContainerRemoveCall ''c2'',
      ContainerListCall [LabelIs ''project'' ''demo'', LabelIs ''service'' ''web''],
      NetworkListCall [LabelIs ''project'' ''demo'']]"
  by code_simp

section \<open>Properties of Ps and List\<close>

lemma group_loop_error:
  "find (\<lambda>c. map_of (c_Labels c) l = None) cs = Some c \<Longrightarrow>
   group_loop l cs st = Inl (NoLabel l (c_ID c))"
proof (induction cs arbitrary: st)
  case Nil
  then show ?case by simp
next
  case (Cons a cs)
  then show ?case
    by (cases st) (auto split: option.splits if_splits)
qed

lemma group_loop_ok:
  "find (\<lambda>c. map_of (c_Labels c) l = None) cs = None \<Longrightarrow> grouped l pre st \<Longrightarrow>
   \<exists>st'. group_loop l cs st = Inr st' \<and> grouped l (pre @ cs) st'"
proof (induction cs arbitrary: st pre)
  case Nil
  then show ?case by simp
next
  case (Cons c cs)
  obtain m ks where st: "st = (m, ks)" by (cases st)
  from Cons.prems(1) obtain v where v: "map_of (c_Labels c) l = Some v"
    and rest: "find (\<lambda>c. map_of (c_Labels c) l = None) cs = None"
    by (auto split: if_splits)
  have lv: "label_at (c_Labels c) l = v" using v by (simp add: label_at_def)
  from Cons.prems(2) st have ks: "set ks = (\<lambda>c. label_at (c_Labels c) l) ` set pre"
    and d: "distinct ks"
    and m: "\<And>u. m u = (if u \<in> set ks then Some (filter (\<lambda>c. label_at (c_Labels c) l = u) pre) else None)"
    by (simp_all add: grouped_def)
  show ?case
  proof (cases "v \<in> set ks")
    case True
    have g: "grouped l (pre @ [c]) (m(v \<mapsto> filter (\<lambda>c. label_at (c_Labels c) l = v) pre @ [c]), ks)"
      using True ks d m lv by (auto simp: grouped_def)
    have "group_loop l (c # cs) st =
        group_loop l cs (m(v \<mapsto> filter (\<lambda>c. label_at (c_Labels c) l = v) pre @ [c]), ks)"
      using True m [of v] v st by simp
    with Cons.IH [OF rest g] show ?thesis by simp
  next
    case False
    have none: "filter (\<lambda>c. label_at (c_Labels c) l = v) pre = []"
      using False ks by (auto simp: filter_empty_conv)
    have g: "grouped l (pre @ [c]) (m(v \<mapsto> [] @ [c]), ks @ [v])"
      using False ks d m lv none by (auto simp: grouped_def)
    have "group_loop l (c # cs) st = group_loop l cs (m(v \<mapsto> [] @ [c]), ks @ [v])"
      using False m [of v] v st by simp
    with Cons.IH [OF rest g] show ?thesis by simp
  qed
qed

lemma find_None_labels:
  "find (\<lambda>c. map_of (c_Labels c) l = None) cs = None \<Longrightarrow>
   \<forall>c \<in> set cs. map_of (c_Labels c) l \<noteq> None"
  by (simp add: find_None_iff)

lemma groupContainerByLabel_ok:
  assumes "find (\<lambda>c. map_of (c_Labels c) l = None) cs = None"
  shows "\<exists>m. groupContainerByLabel cs l = Inr (m, sort (remdups (map (\<lambda>c. label_at (c_Labels c) l) cs)))
     \<and> (\<forall>v \<in> set (map (\<lambda>c. label_at (c_Labels c) l) cs).
          containers_at m v = filter (\<lambda>c. label_at (c_Labels c) l = v) cs)"
proof -
  have "grouped l [] (Map.empty, [])" by (simp add: grouped_def)
  from group_loop_ok [OF assms this] obtain m ks
    where loop: "group_loop l cs (Map.empty, []) = Inr (m, ks)" and g: "grouped l cs (m, ks)"
    by auto
  from g have ks: "set ks = (\<lambda>c. label_at (c_Labels c) l) ` set cs" and d: "distinct ks"
    and m: "\<And>u. m u = (if u \<in> set ks then Some (filter (\<lambda>c. label_at (c_Labels c) l = u) cs) else None)"
    by (simp_all add: grouped_def)
  have "sort ks = sort (remdups (map (\<lambda>c. label_at (c_Labels c) l) cs))"
    by (rule sorted_distinct_set_unique) (simp_all add: ks d)
  moreover have "\<forall>v \<in> set (map (\<lambda>c. label_at (c_Labels c) l) cs).
          containers_at m v = filter (\<lambda>c. label_at (c_Labels c) l = v) cs"
    using ks m by (auto simp: containers_at_def)
  ultimately show ?thesis
    using loop by (simp add: groupContainerByLabel_def)
qed

lemma groupContainerByLabel_error:
  "find (\<lambda>c. map_of (c_Labels c) l = None) cs = Some c \<Longrightarrow>
   groupContainerByLabel cs l = Inl (NoLabel l (c_ID c))"
  by (simp add: groupContainerByLabel_def group_loop_error)

lemma running_loop:
  "foldl (\<lambda>running container. if c_State container = ''running'' then running @ [container] else running) acc cs
    = acc @ filter (\<lambda>c. c_State c = ''running'') cs"
  by (induction cs arbitrary: acc) simp_all

lemma services_loop:
  "foldl (\<lambda>services service. services @ [f service]) acc ks = acc @ map f ks"
  by (induction ks arbitrary: acc) simp_all

lemma containerToState_map: "containerToState cs = map c_State cs"
  unfolding containerToState_def using services_loop [of c_State "[]" cs] by simp

lemma containersToServiceStatus_eq:
  "containersToServiceStatus K cs =
     (case find (\<lambda>c. map_of (c_Labels c) (serviceLabel K) = None) cs of
        Some c \<Rightarrow> Inl (NoLabel (serviceLabel K) (c_ID c))
      | None \<Rightarrow> Inr (map (service_entry K cs)
                  (sort (remdups (map (\<lambda>c. label_at (c_Labels c) (serviceLabel K)) cs)))))"
proof (cases "find (\<lambda>c. map_of (c_Labels c) (serviceLabel K) = None) cs")
  case (Some c)
  then show ?thesis
    by (simp add: containersToServiceStatus_def groupContainerByLabel_error)
next
  case None
  let ?keys = "sort (remdups (map (\<lambda>c. label_at (c_Labels c) (serviceLabel K)) cs))"
  from groupContainerByLabel_ok [OF None] obtain m
    where grp: "groupContainerByLabel cs (serviceLabel K) = Inr (m, ?keys)"
      and at: "\<forall>v \<in> set (map (\<lambda>c. label_at (c_Labels c) (serviceLabel K)) cs).
          containers_at m v = filter (\<lambda>c. label_at (c_Labels c) (serviceLabel K) = v) cs"
    by blast
  have "map (\<lambda>service. \<lparr>ss_ID = service, ss_Name = service,
               ss_Desired = int (length (containers_at m service)),
               ss_Replicas = int (length (filter (\<lambda>c. c_State c = ''running'') (containers_at m service)))\<rparr>) ?keys
      = map (service_entry K cs) ?keys"
    by (rule map_cong) (use at in \<open>auto simp: service_entry_def\<close>)
  then show ?thesis
    using None grp
    by (simp add: containersToServiceStatus_def Let_def running_loop services_loop)
qed

lemma containersToStacks_eq:
  "containersToStacks K cs =
     (case find (\<lambda>c. map_of (c_Labels c) (projectLabel K) = None) cs of
        Some c \<Rightarrow> Inl (NoLabel (projectLabel K) (c_ID c))
      | None \<Rightarrow> Inr (map (stack_entry K cs)
                  (sort (remdups (map (\<lambda>c. label_at (c_Labels c) (projectLabel K)) cs)))))"
proof (cases "find (\<lambda>c. map_of (c_Labels c) (projectLabel K) = None) cs")
  case (Some c)
  then show ?thesis
    by (simp add: containersToStacks_def groupContainerByLabel_error)
next
  case None
  let ?keys = "sort (remdups (map (\<lambda>c. label_at (c_Labels c) (projectLabel K)) cs))"
  from groupContainerByLabel_ok [OF None] obtain m
    where grp: "groupContainerByLabel cs (projectLabel K) = Inr (m, ?keys)"
      and at: "\<forall>v \<in> set (map (\<lambda>c. label_at (c_Labels c) (projectLabel K)) cs).
          containers_at m v = filter (\<lambda>c. label_at (c_Labels c) (projectLabel K) = v) cs"
    by blast
  have "map (\<lambda>project. \<lparr>st_ID = project, st_Name = project,
               st_Status = combinedStatus (containerToState (containers_at m project))\<rparr>) ?keys
      = map (stack_entry K cs) ?keys"
    by (rule map_cong)
      (use at in \<open>auto simp: stack_entry_def containerToState_map\<close>)
  then show ?thesis
    using None grp
    by (simp add: containersToStacks_def services_loop)
qed


text \<open>
  C10. If a container of the list lacks the grouping label, the conversion behind \<^verbatim>\<open>Ps\<close>
  (service label) and the one behind \<^verbatim>\<open>List\<close> (project label) return the error that names
  the label and the identifier of the first such container, and no entries. Otherwise they
  return one entry for each distinct value of the label, in alphabetical order of the
  values. \<^verbatim>\<open>Ps\<close> and \<^verbatim>\<open>List\<close> return what the conversion gives for the listed containers.
\<close>

theorem grouping_by_label:
  "containersToServiceStatus K cs =
     (case find (\<lambda>c. map_of (c_Labels c) (serviceLabel K) = None) cs of
        Some c \<Rightarrow> Inl (NoLabel (serviceLabel K) (c_ID c))
      | None \<Rightarrow> Inr (map (service_entry K cs)
                  (sort (remdups (map (\<lambda>c. label_at (c_Labels c) (serviceLabel K)) cs)))))
   \<and> containersToStacks K cs =
     (case find (\<lambda>c. map_of (c_Labels c) (projectLabel K) = None) cs of
        Some c \<Rightarrow> Inl (NoLabel (projectLabel K) (c_ID c))
      | None \<Rightarrow> Inr (map (stack_entry K cs)
                  (sort (remdups (map (\<lambda>c. label_at (c_Labels c) (projectLabel K)) cs)))))
   \<and> (ContainerList [projectFilter K projectName] w = (Inr cs, w1)
        \<longrightarrow> Ps K projectName w = (containersToServiceStatus K cs, w1))
   \<and> (ContainerList [hasProjectLabelFilter K] w = (Inr cs, w1)
        \<longrightarrow> List K projectName w = (containersToStacks K cs, w1))"
  using containersToServiceStatus_eq [of K cs] containersToStacks_eq [of K cs]
  by (simp add: Ps_def List_def)

theorem grouping_by_label_witness:
  "fst (Ps spec_constants ''demo'' mixed_world) = Inl (NoLabel ''service'' ''c3'')
   \<and> fst (List spec_constants ''demo'' mixed_world)
       = Inr [\<lparr>st_ID = ''demo'', st_Name = ''demo'', st_Status = ''exited(1), running(2)''\<rparr>]"
proof -
  let ?cs = "[replica ''c1'', stray, replica ''c2'']"
  let ?w1 = "mixed_world\<lparr>w_calls := [ContainerListCall [LabelIs ''project'' ''demo'']]\<rparr>"
  let ?w2 = "mixed_world\<lparr>w_calls := [ContainerListCall [HasLabel ''project'']]\<rparr>"
  have h1: "ContainerList [projectFilter spec_constants ''demo''] mixed_world = (Inr ?cs, ?w1)"
    by (simp add: ContainerList_def record_call_def mixed_world_def empty_world_def replica_def
        stray_def labelled_container_def projectFilter_def spec_constants_def)
  have h2: "ContainerList [hasProjectLabelFilter spec_constants] mixed_world = (Inr ?cs, ?w2)"
    by (simp add: ContainerList_def record_call_def mixed_world_def empty_world_def replica_def
        stray_def labelled_container_def hasProjectLabelFilter_def spec_constants_def)
  have e1: "(case find (\<lambda>c. map_of (c_Labels c) (serviceLabel spec_constants) = None) ?cs of
        Some c \<Rightarrow> Inl (NoLabel (serviceLabel spec_constants) (c_ID c))
      | None \<Rightarrow> Inr (map (service_entry spec_constants ?cs)
                  (sort (remdups (map (\<lambda>c. label_at (c_Labels c) (serviceLabel spec_constants)) ?cs)))))
      = Inl (NoLabel ''service'' ''c3'')"
    by code_simp
  have e2: "(case find (\<lambda>c. map_of (c_Labels c) (projectLabel spec_constants) = None) ?cs of
        Some c \<Rightarrow> Inl (NoLabel (projectLabel spec_constants) (c_ID c))
      | None \<Rightarrow> Inr (map (stack_entry spec_constants ?cs)
                  (sort (remdups (map (\<lambda>c. label_at (c_Labels c) (projectLabel spec_constants)) ?cs)))))
      = Inr [\<lparr>st_ID = ''demo'', st_Name = ''demo'', st_Status = ''exited(1), running(2)''\<rparr>]"
    by code_simp
  from grouping_by_label [of spec_constants ?cs "''demo''" mixed_world ?w1]
  have "Ps spec_constants ''demo'' mixed_world = (Inl (NoLabel ''service'' ''c3''), ?w1)"
    using h1 e1 by simp
  moreover from grouping_by_label [of spec_constants ?cs "''demo''" mixed_world ?w2]
  have "List spec_constants ''demo'' mixed_world
      = (Inr [\<lparr>st_ID = ''demo'', st_Name = ''demo'', st_Status = ''exited(1), running(2)''\<rparr>], ?w2)"
    using h2 e2 by simp
  ultimately show ?thesis by simp
qed

section \<open>Properties of Up\<close>

lemma max_bound: "k \<in> set ks \<Longrightarrow> k \<le> foldr max ks (0::nat)"
  by (induction ks) auto

lemma fresh_ref_new: "fresh_ref w \<notin> fst ` set (w_labels w)"
proof
  assume "fresh_ref w \<in> fst ` set (w_labels w)"
  then have "fresh_ref w \<in> set (map fst (w_labels w))" by simp
  from max_bound [OF this] show False by (simp add: fresh_ref_def)
qed

lemma map_of_snoc:
  "map_of (S @ [(f, x)]) r = (case map_of S r of Some y \<Rightarrow> Some y | None \<Rightarrow> if r = f then Some x else None)"
  by (induction S) auto

lemma Labels_Add_ref:
  "Labels_Add l key val w = (l', w') \<Longrightarrow>
   (case l of Some r \<Rightarrow> l' = Some r | None \<Rightarrow> l' = Some (fresh_ref w))"
  by (auto simp: Labels_Add_def split: option.splits)

lemma Labels_Add_keys:
  "Labels_Add l key val w = (l', w') \<Longrightarrow> r \<in> fst ` set (w_labels w) \<Longrightarrow> r \<in> fst ` set (w_labels w')"
proof (cases l)
  case None
  assume "Labels_Add l key val w = (l', w')" and "r \<in> fst ` set (w_labels w)"
  with None have "w_labels w' = w_labels w @ [(fresh_ref w, [(key, val)])]"
    by (auto simp: Labels_Add_def)
  with \<open>r \<in> fst ` set (w_labels w)\<close> show ?thesis by simp
next
  case (Some a)
  assume "Labels_Add l key val w = (l', w')" and r: "r \<in> fst ` set (w_labels w)"
  with Some have "w_labels w' =
      AList.update a (AList.update key val (labels_of w (Some a))) (w_labels w)"
    by (auto simp: Labels_Add_def)
  then have "fst ` set (w_labels w') = {a} \<union> fst ` set (w_labels w)"
    by (simp only: AList.dom_update)
  with r show ?thesis by blast
qed

lemma Labels_Add_content:
  assumes "Labels_Add l key val w = (l', w')"
  shows "labels_of w' (Some r0) =
     (if Some r0 = l' then AList.update key val (labels_of w l) else labels_of w (Some r0))"
proof (cases l)
  case None
  have "map_of (w_labels w) (fresh_ref w) = None"
    using fresh_ref_new [of w] by (simp add: map_of_eq_None_iff)
  then show ?thesis
    using assms None
    by (auto simp: Labels_Add_def labels_of_def map_of_snoc split: option.splits if_splits)
next
  case (Some r)
  then show ?thesis
    using assms
    by (auto simp: Labels_Add_def labels_of_def AList.update_conv' split: option.splits)
qed

lemma three_adds:
  assumes a1: "Labels_Add l k1 v1 w = (l1, w1)"
    and a2: "Labels_Add l1 k2 v2 w1 = (l2, w2)"
    and a3: "Labels_Add l2 k3 v3 w2 = (l3, w3)"
    and r0: "r0 \<in> fst ` set (w_labels w)"
  shows "r0 \<in> fst ` set (w_labels w3)"
    and "labels_of w3 (Some r0) =
      (if l = Some r0
       then AList.update k3 v3 (AList.update k2 v2 (AList.update k1 v1 (labels_of w (Some r0))))
       else labels_of w (Some r0))"
proof -
  have "r0 \<in> fst ` set (w_labels w1)"
    using a1 r0 by (rule Labels_Add_keys)
  then have "r0 \<in> fst ` set (w_labels w2)"
    by (rule Labels_Add_keys [OF a2])
  then show "r0 \<in> fst ` set (w_labels w3)"
    by (rule Labels_Add_keys [OF a3])
  have l1: "l1 = (case l of Some r \<Rightarrow> Some r | None \<Rightarrow> Some (fresh_ref w))"
    using Labels_Add_ref [OF a1] by (cases l) simp_all
  have l2: "l2 = l1" using Labels_Add_ref [OF a2] l1 by (cases l) simp_all
  have l3: "l3 = l1" using Labels_Add_ref [OF a3] l2 l1 by (cases l) simp_all
  have fresh: "r0 \<noteq> fresh_ref w"
  proof
    assume "r0 = fresh_ref w"
    with r0 fresh_ref_new [of w] show False by simp
  qed
  have c1: "labels_of w1 l1 = AList.update k1 v1 (labels_of w l)"
    using Labels_Add_content [OF a1] l1 by (cases l) simp_all
  have c2: "labels_of w2 l1 = AList.update k2 v2 (AList.update k1 v1 (labels_of w l))"
    using Labels_Add_content [OF a2] l1 l2 c1 by (cases l) simp_all
  have c3: "labels_of w3 l1 = AList.update k3 v3 (AList.update k2 v2 (AList.update k1 v1 (labels_of w l)))"
    using Labels_Add_content [OF a3] l1 l2 l3 c2 by (cases l) simp_all
  show "labels_of w3 (Some r0) =
      (if l = Some r0
       then AList.update k3 v3 (AList.update k2 v2 (AList.update k1 v1 (labels_of w (Some r0))))
       else labels_of w (Some r0))"
  proof (cases "l = Some r0")
    case True
    then show ?thesis using c3 l1 by simp
  next
    case False
    then have "Some r0 \<noteq> l1" using l1 fresh by (cases l) auto
    then show ?thesis
      using False Labels_Add_content [OF a3, of r0] Labels_Add_content [OF a2, of r0]
        Labels_Add_content [OF a1, of r0] l2 l3
      by simp
  qed
qed


lemma labels_kept_by_calls:
  "NetworkInspect name w = (e, w') \<Longrightarrow> w_labels w' = w_labels w"
  "NetworkCreate name opts w = (e, w') \<Longrightarrow> w_labels w' = w_labels w"
  "VolumeInspect name w = (e, w') \<Longrightarrow> w_labels w' = w_labels w"
  "VolumeCreate body w = (e, w') \<Longrightarrow> w_labels w' = w_labels w"
  by (auto simp: NetworkInspect_def NetworkCreate_def VolumeInspect_def VolumeCreate_def
      record_call_def Let_def split: option.splits if_splits)

lemma labels_kept_by_event [simp]: "w_labels (Event_write e w) = w_labels w"
  by (simp add: Event_write_def)

lemma ensureNetwork_keeps_labels: "ensureNetwork n w = (e, w') \<Longrightarrow> w_labels w' = w_labels w"
  unfolding ensureNetwork_def Let_def
  by (auto split: prod.splits option.splits if_splits
      dest!: labels_kept_by_calls(1) labels_kept_by_calls(2))

lemma ensureVolume_keeps_labels: "ensureVolume v w = (e, w') \<Longrightarrow> w_labels w' = w_labels w"
  unfolding ensureVolume_def Let_def
  by (auto split: prod.splits option.splits if_splits
      dest!: labels_kept_by_calls(3) labels_kept_by_calls(4))

lemma update_mid:
  "k \<notin> fst ` set pre \<Longrightarrow> AList.update k v (pre @ (k, v0) # rest) = pre @ (k, v) # rest"
  by (induction pre) auto


lemma labels_of_cong: "w_labels a = w_labels b \<Longrightarrow> labels_of a l = labels_of b l"
  by (simp add: labels_of_def split: option.splits)

lemma renamed_network_key [simp]: "fst (renamed_network pn e) = fst e"
  by (cases e) (simp add: renamed_network_def)

lemma renamed_volume_key [simp]: "fst (renamed_volume pn e) = fst e"
  by (cases e) (simp add: renamed_volume_def)

lemma Up_networks_effect:
  assumes "distinct (map fst (pre @ todo))"
    and "p_Networks project = map (renamed_network (p_Name project)) pre @ todo"
    and "Up_networks K todo project w = (err, project', w')"
  shows "\<exists>i \<le> length todo.
      project' = project\<lparr>p_Networks :=
          map (renamed_network (p_Name project)) (pre @ take i todo) @ drop i todo\<rparr>
      \<and> (\<forall>r \<in> fst ` set (w_labels w).
            r \<in> fst ` set (w_labels w')
            \<and> labels_of w' (Some r) =
                foldl (network_labels K (p_Name project) r) (labels_of w (Some r)) (take i todo))
      \<and> (err = None \<longrightarrow> i = length todo)"
  using assms
proof (induction todo arbitrary: pre project w)
  case Nil
  then show ?case by simp
next
  case (Cons e rest)
  obtain k n where e: "e = (k, n)" by (cases e)
  define renamed where "renamed = (\<not> n_External n \<and> n_Name n = k)"
  define network1 where
    "network1 = (if renamed then n\<lparr>n_Name := p_Name project @ ''_'' @ k\<rparr> else n)"
  define project1 where
    "project1 = (if renamed
                 then project\<lparr>p_Networks := AList.update k network1 (p_Networks project)\<rparr>
                 else project)"
  obtain l1 w1 where a1: "Labels_Add (n_Labels network1) (networkLabel K) k w = (l1, w1)"
    by (cases "Labels_Add (n_Labels network1) (networkLabel K) k w")
  obtain l2 w2 where a2: "Labels_Add l1 (projectLabel K) (p_Name project) w1 = (l2, w2)"
    by (cases "Labels_Add l1 (projectLabel K) (p_Name project) w1")
  obtain l3 w3 where a3: "Labels_Add l2 (versionLabel K) (ComposeVersion K) w2 = (l3, w3)"
    by (cases "Labels_Add l2 (versionLabel K) (ComposeVersion K) w2")
  obtain e4 w4 where en: "ensureNetwork (network1\<lparr>n_Labels := l3\<rparr>) w3 = (e4, w4)"
    by (cases "ensureNetwork (network1\<lparr>n_Labels := l3\<rparr>) w3")
  have step: "Up_networks K (e # rest) project w =
      (case e4 of Some err \<Rightarrow> (Some err, project1, w4)
       | None \<Rightarrow> Up_networks K rest project1 w4)"
  proof (cases renamed)
    case True
    then have c: "\<not> n_External n" "n_Name n = k"
      by (simp_all add: renamed_def)
    from True have n1: "network1 = n\<lparr>n_Name := p_Name project @ ''_'' @ k\<rparr>"
      by (simp add: network1_def)
    from True have p1: "project1 = project\<lparr>p_Networks :=
        AList.update k (n\<lparr>n_Name := p_Name project @ ''_'' @ k\<rparr>) (p_Networks project)\<rparr>"
      by (simp add: project1_def n1)
    show ?thesis
      using a1 a2 a3 en c unfolding n1 p1
      by (simp add: e Let_def split: option.splits)
  next
    case False
    then have c: "(\<not> n_External n \<and> n_Name n = k) = False"
      by (simp add: renamed_def)
    from False have n1: "network1 = n" and p1: "project1 = project"
      by (simp_all add: network1_def project1_def)
    show ?thesis
      using a1 a2 a3 en unfolding n1 p1
      by (simp add: e Let_def c split: option.splits)
  qed
  have "k \<notin> fst ` set pre"
    using Cons.prems(1) e by auto
  then have kpre: "k \<notin> fst ` set (map (renamed_network (p_Name project)) pre)"
    by (simp add: image_image)
  have rn: "renamed_network (p_Name project) (k, n) = (k, network1)"
    by (simp add: renamed_network_def network1_def renamed_def)
  have name1: "p_Name project1 = p_Name project"
    by (simp add: project1_def)
  have proj1: "project1 = project\<lparr>p_Networks :=
      map (renamed_network (p_Name project)) (pre @ [(k, n)]) @ rest\<rparr>"
  proof (cases renamed)
    case True
    then show ?thesis
      using Cons.prems(2) kpre rn by (simp add: project1_def e update_mid)
  next
    case False
    then have "network1 = n" by (simp add: network1_def)
    then show ?thesis
      using False Cons.prems(2) rn by (simp add: project1_def e)
  qed
  have nets1: "p_Networks project1 = map (renamed_network (p_Name project1)) (pre @ [(k, n)]) @ rest"
    using proj1 name1 by simp
  have dist1: "distinct (map fst ((pre @ [(k, n)]) @ rest))"
    using Cons.prems(1) e by simp
  have labs: "n_Labels network1 = n_Labels n"
    by (simp add: network1_def)
  have round: "r \<in> fst ` set (w_labels w4)
      \<and> labels_of w4 (Some r) = network_labels K (p_Name project) r (labels_of w (Some r)) (k, n)"
    if r: "r \<in> fst ` set (w_labels w)" for r
  proof -
    have w4: "w_labels w4 = w_labels w3"
      using ensureNetwork_keeps_labels [OF en] .
    from three_adds(1) [OF a1 a2 a3 r] three_adds(2) [OF a1 a2 a3 r] w4 labs
    show ?thesis
      by (simp add: network_labels_def add_labels_def labels_of_cong [OF w4])
  qed
  show ?case
  proof (cases e4)
    case (Some err4)
    with step Cons.prems(3) have res: "err = Some err4" "project' = project1" "w' = w4"
      by simp_all
    have "project' = project\<lparr>p_Networks :=
          map (renamed_network (p_Name project)) (pre @ take 1 (e # rest)) @ drop 1 (e # rest)\<rparr>"
      using res proj1 e by simp
    moreover have "\<forall>r \<in> fst ` set (w_labels w).
            r \<in> fst ` set (w_labels w')
            \<and> labels_of w' (Some r) =
                foldl (network_labels K (p_Name project) r) (labels_of w (Some r)) (take 1 (e # rest))"
      using round res e by simp
    ultimately show ?thesis
      using res by (intro exI [of _ 1]) simp
  next
    case None
    with step Cons.prems(3) have rec: "Up_networks K rest project1 w4 = (err, project', w')"
      by simp
    from Cons.IH [OF dist1 nets1 rec] obtain i where i: "i \<le> length rest"
      and p': "project' = project1\<lparr>p_Networks :=
          map (renamed_network (p_Name project1)) ((pre @ [(k, n)]) @ take i rest) @ drop i rest\<rparr>"
      and l': "\<forall>r \<in> fst ` set (w_labels w4).
            r \<in> fst ` set (w_labels w')
            \<and> labels_of w' (Some r) =
                foldl (network_labels K (p_Name project1) r) (labels_of w4 (Some r)) (take i rest)"
      and fin: "err = None \<longrightarrow> i = length rest"
      by blast
    have "project' = project\<lparr>p_Networks :=
          map (renamed_network (p_Name project)) (pre @ take (Suc i) (e # rest))
            @ drop (Suc i) (e # rest)\<rparr>"
      using p' proj1 name1 e by simp
    moreover have "\<forall>r \<in> fst ` set (w_labels w).
            r \<in> fst ` set (w_labels w')
            \<and> labels_of w' (Some r) =
                foldl (network_labels K (p_Name project) r) (labels_of w (Some r))
                  (take (Suc i) (e # rest))"
    proof
      fix r
      assume r: "r \<in> fst ` set (w_labels w)"
      from round [OF r] have r4: "r \<in> fst ` set (w_labels w4)"
        and c4: "labels_of w4 (Some r) =
          network_labels K (p_Name project) r (labels_of w (Some r)) (k, n)"
        by simp_all
      from l' r4 have "r \<in> fst ` set (w_labels w')"
        and "labels_of w' (Some r) =
          foldl (network_labels K (p_Name project1) r) (labels_of w4 (Some r)) (take i rest)"
        by blast+
      then show "r \<in> fst ` set (w_labels w')
            \<and> labels_of w' (Some r) =
                foldl (network_labels K (p_Name project) r) (labels_of w (Some r))
                  (take (Suc i) (e # rest))"
        using c4 name1 e by simp
    qed
    ultimately show ?thesis
      using i fin by (intro exI [of _ "Suc i"]) simp
  qed
qed

lemma Up_volumes_effect:
  assumes "distinct (map fst (pre @ todo))"
    and "p_Volumes project = map (renamed_volume (p_Name project)) pre @ todo"
    and "Up_volumes K todo project w = (err, project', w')"
  shows "\<exists>i \<le> length todo.
      project' = project\<lparr>p_Volumes :=
          map (renamed_volume (p_Name project)) (pre @ take i todo) @ drop i todo\<rparr>
      \<and> (\<forall>r \<in> fst ` set (w_labels w).
            r \<in> fst ` set (w_labels w')
            \<and> labels_of w' (Some r) =
                foldl (volume_labels K (p_Name project) r) (labels_of w (Some r)) (take i todo))
      \<and> (err = None \<longrightarrow> i = length todo)"
  using assms
proof (induction todo arbitrary: pre project w)
  case Nil
  then show ?case by simp
next
  case (Cons e rest)
  obtain k n where e: "e = (k, n)" by (cases e)
  define renamed where "renamed = (\<not> v_External n \<and> v_Name n \<noteq> [])"
  define volume1 where
    "volume1 = (if renamed then n\<lparr>v_Name := p_Name project @ ''_'' @ k\<rparr> else n)"
  define project1 where
    "project1 = (if renamed
                 then project\<lparr>p_Volumes := AList.update k volume1 (p_Volumes project)\<rparr>
                 else project)"
  obtain l1 w1 where a1: "Labels_Add (v_Labels volume1) (volumeLabel K) k w = (l1, w1)"
    by (cases "Labels_Add (v_Labels volume1) (volumeLabel K) k w")
  obtain l2 w2 where a2: "Labels_Add l1 (projectLabel K) (p_Name project) w1 = (l2, w2)"
    by (cases "Labels_Add l1 (projectLabel K) (p_Name project) w1")
  obtain l3 w3 where a3: "Labels_Add l2 (versionLabel K) (ComposeVersion K) w2 = (l3, w3)"
    by (cases "Labels_Add l2 (versionLabel K) (ComposeVersion K) w2")
  obtain e4 w4 where ev: "ensureVolume (volume1\<lparr>v_Labels := l3\<rparr>) w3 = (e4, w4)"
    by (cases "ensureVolume (volume1\<lparr>v_Labels := l3\<rparr>) w3")
  have step: "Up_volumes K (e # rest) project w =
      (case e4 of Some err \<Rightarrow> (Some err, project1, w4)
       | None \<Rightarrow> Up_volumes K rest project1 w4)"
  proof (cases renamed)
    case True
    then have c: "\<not> v_External n" "v_Name n \<noteq> []"
      by (simp_all add: renamed_def)
    from True have n1: "volume1 = n\<lparr>v_Name := p_Name project @ ''_'' @ k\<rparr>"
      by (simp add: volume1_def)
    from True have p1: "project1 = project\<lparr>p_Volumes :=
        AList.update k (n\<lparr>v_Name := p_Name project @ ''_'' @ k\<rparr>) (p_Volumes project)\<rparr>"
      by (simp add: project1_def n1)
    show ?thesis
      using a1 a2 a3 ev c unfolding n1 p1
      by (simp add: e Let_def split: option.splits)
  next
    case False
    then have c: "(\<not> v_External n \<and> v_Name n \<noteq> []) = False"
      by (simp add: renamed_def)
    from False have n1: "volume1 = n" and p1: "project1 = project"
      by (simp_all add: volume1_def project1_def)
    show ?thesis
      using a1 a2 a3 ev unfolding n1 p1
      by (simp add: e Let_def c split: option.splits)
  qed
  have "k \<notin> fst ` set pre"
    using Cons.prems(1) e by auto
  then have kpre: "k \<notin> fst ` set (map (renamed_volume (p_Name project)) pre)"
    by (simp add: image_image)
  have rn: "renamed_volume (p_Name project) (k, n) = (k, volume1)"
    by (simp add: renamed_volume_def volume1_def renamed_def)
  have name1: "p_Name project1 = p_Name project"
    by (simp add: project1_def)
  have proj1: "project1 = project\<lparr>p_Volumes :=
      map (renamed_volume (p_Name project)) (pre @ [(k, n)]) @ rest\<rparr>"
  proof (cases renamed)
    case True
    then show ?thesis
      using Cons.prems(2) kpre rn by (simp add: project1_def e update_mid)
  next
    case False
    then have "volume1 = n" by (simp add: volume1_def)
    then show ?thesis
      using False Cons.prems(2) rn by (simp add: project1_def e)
  qed
  have nets1: "p_Volumes project1 = map (renamed_volume (p_Name project1)) (pre @ [(k, n)]) @ rest"
    using proj1 name1 by simp
  have dist1: "distinct (map fst ((pre @ [(k, n)]) @ rest))"
    using Cons.prems(1) e by simp
  have labs: "v_Labels volume1 = v_Labels n"
    by (simp add: volume1_def)
  have round: "r \<in> fst ` set (w_labels w4)
      \<and> labels_of w4 (Some r) = volume_labels K (p_Name project) r (labels_of w (Some r)) (k, n)"
    if r: "r \<in> fst ` set (w_labels w)" for r
  proof -
    have w4: "w_labels w4 = w_labels w3"
      using ensureVolume_keeps_labels [OF ev] .
    from three_adds(1) [OF a1 a2 a3 r] three_adds(2) [OF a1 a2 a3 r] w4 labs
    show ?thesis
      by (simp add: volume_labels_def add_labels_def labels_of_cong [OF w4])
  qed
  show ?case
  proof (cases e4)
    case (Some err4)
    with step Cons.prems(3) have res: "err = Some err4" "project' = project1" "w' = w4"
      by simp_all
    have "project' = project\<lparr>p_Volumes :=
          map (renamed_volume (p_Name project)) (pre @ take 1 (e # rest)) @ drop 1 (e # rest)\<rparr>"
      using res proj1 e by simp
    moreover have "\<forall>r \<in> fst ` set (w_labels w).
            r \<in> fst ` set (w_labels w')
            \<and> labels_of w' (Some r) =
                foldl (volume_labels K (p_Name project) r) (labels_of w (Some r)) (take 1 (e # rest))"
      using round res e by simp
    ultimately show ?thesis
      using res by (intro exI [of _ 1]) simp
  next
    case None
    with step Cons.prems(3) have rec: "Up_volumes K rest project1 w4 = (err, project', w')"
      by simp
    from Cons.IH [OF dist1 nets1 rec] obtain i where i: "i \<le> length rest"
      and p': "project' = project1\<lparr>p_Volumes :=
          map (renamed_volume (p_Name project1)) ((pre @ [(k, n)]) @ take i rest) @ drop i rest\<rparr>"
      and l': "\<forall>r \<in> fst ` set (w_labels w4).
            r \<in> fst ` set (w_labels w')
            \<and> labels_of w' (Some r) =
                foldl (volume_labels K (p_Name project1) r) (labels_of w4 (Some r)) (take i rest)"
      and fin: "err = None \<longrightarrow> i = length rest"
      by blast
    have "project' = project\<lparr>p_Volumes :=
          map (renamed_volume (p_Name project)) (pre @ take (Suc i) (e # rest))
            @ drop (Suc i) (e # rest)\<rparr>"
      using p' proj1 name1 e by simp
    moreover have "\<forall>r \<in> fst ` set (w_labels w).
            r \<in> fst ` set (w_labels w')
            \<and> labels_of w' (Some r) =
                foldl (volume_labels K (p_Name project) r) (labels_of w (Some r))
                  (take (Suc i) (e # rest))"
    proof
      fix r
      assume r: "r \<in> fst ` set (w_labels w)"
      from round [OF r] have r4: "r \<in> fst ` set (w_labels w4)"
        and c4: "labels_of w4 (Some r) =
          volume_labels K (p_Name project) r (labels_of w (Some r)) (k, n)"
        by simp_all
      from l' r4 have "r \<in> fst ` set (w_labels w')"
        and "labels_of w' (Some r) =
          foldl (volume_labels K (p_Name project1) r) (labels_of w4 (Some r)) (take i rest)"
        by blast+
      then show "r \<in> fst ` set (w_labels w')
            \<and> labels_of w' (Some r) =
                foldl (volume_labels K (p_Name project) r) (labels_of w (Some r))
                  (take (Suc i) (e # rest))"
        using c4 name1 e by simp
    qed
    ultimately show ?thesis
      using i fin by (intro exI [of _ "Suc i"]) simp
  qed
qed


lemma walk_idle: "walk (\<lambda>s w. (None, w)) ss w = (None, w)"
  by (induction ss) simp_all

lemma keeps_labels_idle: "keeps_labels idle"
  by (simp add: keeps_labels_def idle_def walk_idle)

text \<open>
  C5, as the code has it. \<^verbatim>\<open>Up\<close> leaves the project as the caller passed it except for
  the networks and volumes that its loops have reached: such an entry that is not External
  and whose Name equals its key (network) or is not empty (volume) has its Name replaced by
  the project name, an underscore and the key. Every other field of every entry, the Labels
  reference included, and every entry that was not reached are unchanged. The label map
  behind a Labels field that is not \<^verbatim>\<open>nil\<close> is written in place: each entry reached that
  holds the map adds to it the network or volume label, the project label and the version
  label. The loops reach all entries when \<^verbatim>\<open>Up\<close> returns no error.
\<close>

theorem Up_renames_and_labels:
  assumes dn: "distinct (map fst (p_Networks project))"
    and dv: "distinct (map fst (p_Volumes project))"
    and kl: "keeps_labels C"
    and up: "Up K C project detach w = (err, project', w')"
  shows "\<exists>i j. i \<le> length (p_Networks project) \<and> j \<le> length (p_Volumes project)
     \<and> project' = project
         \<lparr>p_Networks := map (renamed_network (p_Name project)) (take i (p_Networks project))
                          @ drop i (p_Networks project),
          p_Volumes := map (renamed_volume (p_Name project)) (take j (p_Volumes project))
                         @ drop j (p_Volumes project)\<rparr>
     \<and> (\<forall>r \<in> fst ` set (w_labels w).
           labels_of w' (Some r) =
             foldl (volume_labels K (p_Name project) r)
               (foldl (network_labels K (p_Name project) r) (labels_of w (Some r))
                  (take i (p_Networks project)))
               (take j (p_Volumes project)))
     \<and> (err = None \<longrightarrow> i = length (p_Networks project) \<and> j = length (p_Volumes project))"
proof -
  obtain e0 w0 where img: "ensureImagesExists C project w = (e0, w0)"
    by (cases "ensureImagesExists C project w")
  have l0: "w_labels w0 = w_labels w"
    using kl img by (metis keeps_labels_def snd_conv)
  show ?thesis
  proof (cases e0)
    case (Some err0)
    with up img have "err = Some err0" "project' = project" "w' = w0"
      by (simp_all add: Up_def)
    then show ?thesis
      using labels_of_cong [OF l0] by (intro exI [of _ 0]) simp
  next
    case None
    obtain e1 project1 w1 where
      nets: "Up_networks K (p_Networks project) project w0 = (e1, project1, w1)"
      by (cases "Up_networks K (p_Networks project) project w0")
    from Up_networks_effect [of "[]" "p_Networks project" project K w0 e1 project1 w1] dn nets
    obtain i where i: "i \<le> length (p_Networks project)"
      and p1: "project1 = project\<lparr>p_Networks :=
          map (renamed_network (p_Name project)) (take i (p_Networks project))
            @ drop i (p_Networks project)\<rparr>"
      and lab1: "\<forall>r \<in> fst ` set (w_labels w0).
            r \<in> fst ` set (w_labels w1)
            \<and> labels_of w1 (Some r) =
                foldl (network_labels K (p_Name project) r) (labels_of w0 (Some r))
                  (take i (p_Networks project))"
      and fin1: "e1 = None \<longrightarrow> i = length (p_Networks project)"
      by auto
    show ?thesis
    proof (cases e1)
      case (Some err1)
      with up img None nets have "err = Some err1" "project' = project1" "w' = w1"
        by (simp_all add: Up_def)
      then show ?thesis
        using i p1 lab1 l0 labels_of_cong [OF l0]
        by (intro exI [of _ i] exI [of _ 0]) simp
    next
      case e1: None
      obtain e2 project2 w2 where
        vols: "Up_volumes K (p_Volumes project1) project1 w1 = (e2, project2, w2)"
        by (cases "Up_volumes K (p_Volumes project1) project1 w1")
      have v1: "p_Volumes project1 = p_Volumes project" and n1: "p_Name project1 = p_Name project"
        using p1 by simp_all
      from Up_volumes_effect [of "[]" "p_Volumes project1" project1 K w1 e2 project2 w2] dv vols v1
      obtain j where j: "j \<le> length (p_Volumes project)"
        and p2: "project2 = project1\<lparr>p_Volumes :=
            map (renamed_volume (p_Name project)) (take j (p_Volumes project))
              @ drop j (p_Volumes project)\<rparr>"
        and lab2: "\<forall>r \<in> fst ` set (w_labels w1).
              r \<in> fst ` set (w_labels w2)
              \<and> labels_of w2 (Some r) =
                  foldl (volume_labels K (p_Name project) r) (labels_of w1 (Some r))
                    (take j (p_Volumes project))"
        and fin2: "e2 = None \<longrightarrow> j = length (p_Volumes project)"
        by (auto simp: n1)
      have lab: "\<forall>r \<in> fst ` set (w_labels w).
           labels_of w2 (Some r) =
             foldl (volume_labels K (p_Name project) r)
               (foldl (network_labels K (p_Name project) r) (labels_of w (Some r))
                  (take i (p_Networks project)))
               (take j (p_Volumes project))"
      proof
        fix r
        assume "r \<in> fst ` set (w_labels w)"
        then have r0: "r \<in> fst ` set (w_labels w0)" using l0 by simp
        with lab1 have r1: "r \<in> fst ` set (w_labels w1)"
          and c1: "labels_of w1 (Some r) =
                foldl (network_labels K (p_Name project) r) (labels_of w0 (Some r))
                  (take i (p_Networks project))"
          by blast+
        from lab2 r1 have "labels_of w2 (Some r) =
                  foldl (volume_labels K (p_Name project) r) (labels_of w1 (Some r))
                    (take j (p_Volumes project))"
          by blast
        then show "labels_of w2 (Some r) =
             foldl (volume_labels K (p_Name project) r)
               (foldl (network_labels K (p_Name project) r) (labels_of w (Some r))
                  (take i (p_Networks project)))
               (take j (p_Volumes project))"
          using c1 labels_of_cong [OF l0] by simp
      qed
      have p2': "project2 = project
         \<lparr>p_Networks := map (renamed_network (p_Name project)) (take i (p_Networks project))
                          @ drop i (p_Networks project),
          p_Volumes := map (renamed_volume (p_Name project)) (take j (p_Volumes project))
                         @ drop j (p_Volumes project)\<rparr>"
        using p1 p2 by simp
      show ?thesis
      proof (cases e2)
        case (Some err2)
        with up img None nets e1 vols have "err = Some err2" "project' = project2" "w' = w2"
          by (simp_all add: Up_def)
        then show ?thesis
          using i j p2' lab by (intro exI [of _ i] exI [of _ j]) simp
      next
        case e2: None
        obtain e3 w3 where
          srv: "InDependencyOrder C project2 (ensureService C project2) w2 = (e3, w3)"
          by (cases "InDependencyOrder C project2 (ensureService C project2) w2")
        have l3: "w_labels w3 = w_labels w2"
          using kl srv by (metis keeps_labels_def snd_conv)
        from up img None nets e1 vols e2 srv have "err = e3" "project' = project2" "w' = w3"
          by (simp_all add: Up_def)
        then show ?thesis
          using i j p2' lab fin1 fin2 e1 e2 labels_of_cong [OF l3]
          by (intro exI [of _ i] exI [of _ j]) simp
      qed
    qed
  qed
qed

theorem Up_renames_and_labels_witness:
  "distinct (map fst (p_Networks network_project))
   \<and> distinct (map fst (p_Volumes network_project))
   \<and> keeps_labels idle
   \<and> fst (Up spec_constants idle network_project False network_world) = None
   \<and> fst (snd (Up spec_constants idle network_project False network_world))
       = network_project\<lparr>p_Networks := [(''default'', default_network\<lparr>n_Name := ''demo_default''\<rparr>)]\<rparr>
   \<and> labels_of (snd (snd (Up spec_constants idle network_project False network_world))) (Some 0)
       = [(''tier'', ''front''), (''network'', ''default''), (''project'', ''demo''),
          (''schemaVersion'', ''1'')]"
proof -
  let ?up = "Up spec_constants idle network_project False network_world"
  have h1: "distinct (map fst (p_Networks network_project))"
    and h2: "distinct (map fst (p_Volumes network_project))"
    by (simp_all add: network_project_def)
  have ok: "fst ?up = None"
    by code_simp
  have up: "?up = (fst ?up, fst (snd ?up), snd (snd ?up))"
    by simp
  have nets: "p_Networks network_project = [(''default'', default_network)]"
    and vols: "p_Volumes network_project = []"
    and name: "p_Name network_project = ''demo''"
    by (simp_all add: network_project_def)
  have ref: "0 \<in> fst ` set (w_labels network_world)"
    and before: "labels_of network_world (Some 0) = [(''tier'', ''front'')]"
    by (simp_all add: network_world_def labels_of_def)
  from Up_renames_and_labels [OF h1 h2 keeps_labels_idle up] obtain i j where
    "i \<le> length (p_Networks network_project)"
    and "j \<le> length (p_Volumes network_project)"
    and proj: "fst (snd ?up) = network_project
         \<lparr>p_Networks := map (renamed_network (p_Name network_project)) (take i (p_Networks network_project))
                          @ drop i (p_Networks network_project),
          p_Volumes := map (renamed_volume (p_Name network_project)) (take j (p_Volumes network_project))
                         @ drop j (p_Volumes network_project)\<rparr>"
    and lab: "\<forall>r \<in> fst ` set (w_labels network_world).
           labels_of (snd (snd ?up)) (Some r) =
             foldl (volume_labels spec_constants (p_Name network_project) r)
               (foldl (network_labels spec_constants (p_Name network_project) r)
                  (labels_of network_world (Some r))
                  (take i (p_Networks network_project)))
               (take j (p_Volumes network_project))"
    and fin: "fst ?up = None \<longrightarrow> i = length (p_Networks network_project) \<and> j = length (p_Volumes network_project)"
    by (elim exE conjE)
  from fin ok have ij: "i = 1" "j = 0"
    by (simp_all add: nets vols)
  have same: "network_project\<lparr>p_Volumes := []\<rparr> = network_project"
    by (simp add: network_project_def)
  from proj have p': "fst (snd ?up)
       = network_project\<lparr>p_Networks := [(''default'', default_network\<lparr>n_Name := ''demo_default''\<rparr>)]\<rparr>"
    unfolding ij nets vols name
    by (simp add: renamed_network_def default_network_def network_project_def)
  from lab ref have "labels_of (snd (snd ?up)) (Some 0) =
             foldl (volume_labels spec_constants (p_Name network_project) 0)
               (foldl (network_labels spec_constants (p_Name network_project) 0)
                  (labels_of network_world (Some 0))
                  (take i (p_Networks network_project)))
               (take j (p_Volumes network_project))"
    by (rule bspec)
  then have l': "labels_of (snd (snd ?up)) (Some 0)
       = [(''tier'', ''front''), (''network'', ''default''), (''project'', ''demo''),
          (''schemaVersion'', ''1'')]"
    unfolding ij nets vols name before
    by (simp add: network_labels_def add_labels_def default_network_def spec_constants_def)
  from p' l' show ?thesis
    using h1 h2 keeps_labels_idle ok by simp
qed

text \<open>
  The claim as stated fails: after \<^verbatim>\<open>Up\<close> has returned without error, the network
  \<open>default\<close> of the project is named \<open>demo_default\<close>, and the label map that its
  Labels field holds has gained three labels.
\<close>

theorem Up_rewrites_the_project:
  "p_Networks network_project = [(''default'', default_network)]
   \<and> labels_of network_world (n_Labels default_network) = [(''tier'', ''front'')]
   \<and> fst (Up spec_constants idle network_project False network_world) = None
   \<and> p_Networks (fst (snd (Up spec_constants idle network_project False network_world)))
       = [(''default'', default_network\<lparr>n_Name := ''demo_default''\<rparr>)]
   \<and> labels_of (snd (snd (Up spec_constants idle network_project False network_world)))
        (n_Labels default_network)
       = [(''tier'', ''front''), (''network'', ''default''), (''project'', ''demo''),
          (''schemaVersion'', ''1'')]"
  by code_simp

end
